(* ===== verification/Prelude.thy ===== *)
theory Prelude
  imports Complex_Main "HOL-Library.AList" "HOL-Library.Code_Target_Numeral"
begin

text \<open>
  Shared vocabulary of the development: the Python exceptions the module
  \<^verbatim>\<open>inventory/agent/node.py\<close> can raise, the Python 2.7 string
  primitives it calls (\<^verbatim>\<open>strip\<close>, \<^verbatim>\<open>split\<close>, \<^verbatim>\<open>startswith\<close>,
  \<^verbatim>\<open>in\<close>, slicing, \<^verbatim>\<open>int()\<close>, \<^verbatim>\<open>"%d" %\<close>) on byte strings, the
  association lists that stand for its dictionaries, and the generic
  lemmas about them that the component theories share.
\<close>

named_theorems py_simps "evaluation rules of the Python primitives"

section \<open>Exceptions and results\<close>

text \<open>
  \<^verbatim>\<open>ValueError\<close> (a failed \<^verbatim>\<open>int()\<close> or tuple unpacking),
  \<^verbatim>\<open>IndexError\<close> (a list index out of range), \<^verbatim>\<open>IOError\<close> (a failed
  \<^verbatim>\<open>open\<close>) and \<^verbatim>\<open>OSError\<close> (a failed \<^verbatim>\<open>os.listdir\<close>; in Python 2
  it is not a subclass of \<^verbatim>\<open>IOError\<close>).
\<close>

datatype py_error = ValueError | IndexError | IOError | OSError

type_synonym 'a py_result = "py_error + 'a"

definition py_bind :: "'a py_result \<Rightarrow> ('a \<Rightarrow> 'b py_result) \<Rightarrow> 'b py_result" where
  "py_bind r f = (case r of Inl e \<Rightarrow> Inl e | Inr x \<Rightarrow> f x)"

lemma py_bind_simps [simp, py_simps]:
  "py_bind (Inl e) f = Inl e"
  "py_bind (Inr x) f = f x"
  by (simp_all add: py_bind_def)

lemma py_bind_eq_Inr [simp]:
  "py_bind r f = Inr y \<longleftrightarrow> (\<exists>x. r = Inr x \<and> f x = Inr y)"
  by (cases r) simp_all

lemma py_bind_eq_Inl:
  "py_bind r f = Inl e \<longleftrightarrow> r = Inl e \<or> (\<exists>x. r = Inr x \<and> f x = Inl e)"
  by (cases r) simp_all

section \<open>Characters\<close>

text \<open>
  Python 2 \<^verbatim>\<open>str\<close> is a byte string. Its \<^verbatim>\<open>isspace\<close>, the regular
  expression classes \<^verbatim>\<open>\s\<close>, \<^verbatim>\<open>\d\<close>, \<^verbatim>\<open>\w\<close> (no
  \<^verbatim>\<open>re.UNICODE\<close> flag) and \<^verbatim>\<open>\S\<close> are these ASCII classes.
\<close>

definition py_isspace :: "char \<Rightarrow> bool" where
  "py_isspace c \<longleftrightarrow> c \<in> set [CHR '' '', CHR 0x09, CHR 0x0A, CHR 0x0B, CHR 0x0C, CHR 0x0D]"

definition py_isdigit :: "char \<Rightarrow> bool" where
  "py_isdigit c \<longleftrightarrow> 48 \<le> (of_char c :: nat) \<and> (of_char c :: nat) \<le> 57"

definition py_isword :: "char \<Rightarrow> bool" where
  "py_isword c \<longleftrightarrow> py_isdigit c \<or> (97 \<le> (of_char c :: nat) \<and> (of_char c :: nat) \<le> 122)
     \<or> (65 \<le> (of_char c :: nat) \<and> (of_char c :: nat) \<le> 90) \<or> c = CHR ''_''"

definition digit_val :: "char \<Rightarrow> nat" where
  "digit_val c = of_char c - 48"

definition digits_val :: "string \<Rightarrow> nat" where
  "digits_val ds = foldl (\<lambda>n c. 10 * n + digit_val c) 0 ds"

section \<open>String methods\<close>

text \<open>\<^verbatim>\<open>s.strip()\<close>: whitespace removed at both ends.\<close>

definition py_strip :: "string \<Rightarrow> string" where
  "py_strip s = rev (dropWhile py_isspace (rev (dropWhile py_isspace s)))"

text \<open>\<^verbatim>\<open>s.strip(chars)\<close>: the characters of \<open>cs\<close> removed at both ends.\<close>

definition py_strip_chars :: "string \<Rightarrow> string \<Rightarrow> string" where
  "py_strip_chars cs s = rev (dropWhile (\<lambda>c. c \<in> set cs) (rev (dropWhile (\<lambda>c. c \<in> set cs) s)))"

text \<open>\<^verbatim>\<open>s.split(sep)\<close> for a one-character separator: never empty.\<close>

fun py_split_acc :: "char \<Rightarrow> string \<Rightarrow> string \<Rightarrow> string list" where
  "py_split_acc sep acc [] = [rev acc]"
| "py_split_acc sep acc (c # cs) =
     (if c = sep then rev acc # py_split_acc sep [] cs else py_split_acc sep (c # acc) cs)"

definition py_split :: "char \<Rightarrow> string \<Rightarrow> string list" where
  "py_split sep s = py_split_acc sep [] s"

text \<open>\<^verbatim>\<open>sep.join(ws)\<close> for a one-character separator.\<close>

fun py_join :: "char \<Rightarrow> string list \<Rightarrow> string" where
  "py_join sep [] = []"
| "py_join sep [w] = w"
| "py_join sep (w # ws) = w @ sep # py_join sep ws"

text \<open>\<^verbatim>\<open>s.split()\<close> with no argument: the maximal runs of non-whitespace.\<close>

function py_split_ws :: "string \<Rightarrow> string list" where
  "py_split_ws s =
     (let s' = dropWhile py_isspace s in
      if s' = [] then []
      else takeWhile (Not \<circ> py_isspace) s' # py_split_ws (dropWhile (Not \<circ> py_isspace) s'))"
  by pat_completeness auto
termination
proof (relation "measure length")
  fix s s' :: string
  assume s': "s' = dropWhile py_isspace s" and ne: "s' \<noteq> []"
  from ne obtain c cs where c: "s' = c # cs"
    by (meson neq_Nil_conv)
  moreover have "\<not> py_isspace c"
    using hd_dropWhile [of py_isspace s] s' ne c by (metis list.sel(1))
  ultimately have "length (dropWhile (Not \<circ> py_isspace) s') \<le> length cs"
    by (simp add: length_dropWhile_le)
  moreover have "length s' \<le> length s"
    using s' by (simp add: length_dropWhile_le)
  ultimately show "(dropWhile (Not \<circ> py_isspace) s', s) \<in> measure length"
    using c by simp
qed simp

declare py_split_ws.simps [simp del]

definition py_startswith :: "string \<Rightarrow> string \<Rightarrow> bool" where
  "py_startswith s p \<longleftrightarrow> take (length p) s = p"

text \<open>\<^verbatim>\<open>p in s\<close> for strings: \<open>p\<close> occurs in \<open>s\<close> as a substring.\<close>

fun py_in :: "string \<Rightarrow> string \<Rightarrow> bool" where
  "py_in p [] \<longleftrightarrow> p = []"
| "py_in p (c # cs) \<longleftrightarrow> py_startswith (c # cs) p \<or> py_in p cs"

text \<open>\<^verbatim>\<open>s[1:-1]\<close> and \<^verbatim>\<open>s[-k:]\<close>.\<close>

definition py_slice_inner :: "'a list \<Rightarrow> 'a list" where
  "py_slice_inner s = butlast (tl s)"

definition py_suffix :: "nat \<Rightarrow> 'a list \<Rightarrow> 'a list" where
  "py_suffix k s = drop (length s - k) s"

text \<open>\<^verbatim>\<open>xs[i]\<close> for an index \<open>i \<ge> 0\<close>, raising \<^verbatim>\<open>IndexError\<close>.\<close>

definition py_index :: "'a list \<Rightarrow> nat \<Rightarrow> 'a py_result" where
  "py_index xs i = (if i < length xs then Inr (xs ! i) else Inl IndexError)"

text \<open>\<^verbatim>\<open>f.readline()\<close> on a file holding \<open>s\<close>: its first line with the newline.\<close>

definition py_readline :: "string \<Rightarrow> string" where
  "py_readline s =
     (let l = takeWhile (\<lambda>c. c \<noteq> CHR 0x0A) s in
      if CHR 0x0A \<in> set s then l @ [CHR 0x0A] else l)"

section \<open>Numbers\<close>

text \<open>
  \<^verbatim>\<open>int(s)\<close> on a string: surrounding whitespace is ignored, an optional
  sign, then one or more decimal digits; anything else raises
  \<^verbatim>\<open>ValueError\<close>.
\<close>

definition py_int_digits :: "string \<Rightarrow> int py_result" where
  "py_int_digits ds =
     (if ds \<noteq> [] \<and> list_all py_isdigit ds then Inr (int (digits_val ds)) else Inl ValueError)"

definition py_int :: "string \<Rightarrow> int py_result" where
  "py_int s =
     (case py_strip s of
        c # ds \<Rightarrow>
          if c = CHR ''-'' then py_bind (py_int_digits ds) (\<lambda>n. Inr (- n))
          else if c = CHR ''+'' then py_int_digits ds
          else py_int_digits (c # ds)
      | [] \<Rightarrow> Inl ValueError)"

text \<open>\<^verbatim>\<open>"%d" % n\<close> for \<open>n \<ge> 0\<close>.\<close>

fun string_of_nat :: "nat \<Rightarrow> string" where
  "string_of_nat n =
     (if n < 10 then [char_of (48 + n)]
      else string_of_nat (n div 10) @ [char_of (48 + n mod 10)])"

declare string_of_nat.simps [simp del]

text \<open>
  Python 2 \<^verbatim>\<open>int(x)\<close> of a float truncates towards zero. Floats are
  modelled by exact rationals (see the root theory).
\<close>

definition py_trunc :: "rat \<Rightarrow> int" where
  "py_trunc x = (if 0 \<le> x then \<lfloor>x\<rfloor> else \<lceil>x\<rceil>)"

datatype pynum = PyInt int | PyFloat rat

section \<open>Anchored regular expressions\<close>

text \<open>
  The module's patterns are anchored (\<^verbatim>\<open>^\<close>, used with
  \<^verbatim>\<open>re.search\<close>) sequences of literal characters, character classes
  (\<^verbatim>\<open>[Pp]\<close>, \<^verbatim>\<open>\S\<close>), runs \<^verbatim>\<open>\s+\<close>, \<^verbatim>\<open>\d+\<close>,
  \<^verbatim>\<open>\w+\<close> and one capturing group. Each run is followed by a character
  outside its class, so greedy matching never backtracks into it and the
  matcher consumes each run maximally, from left to right. In Python 2
  an escape of a letter with no meaning (\<^verbatim>\<open>\M\<close>, \<^verbatim>\<open>\F\<close>,
  \<^verbatim>\<open>\C\<close>, \<^verbatim>\<open>\'\<close>) is the letter itself.
\<close>

datatype re_atom = Lit char | AnyOf "char list" | NonSpace

fun re_atom_ok :: "re_atom \<Rightarrow> char \<Rightarrow> bool" where
  "re_atom_ok (Lit d) c \<longleftrightarrow> c = d"
| "re_atom_ok (AnyOf ds) c \<longleftrightarrow> c \<in> set ds"
| "re_atom_ok NonSpace c \<longleftrightarrow> \<not> py_isspace c"

text \<open>A sequence of one-character atoms at the start of the string.\<close>

fun re_prefix :: "re_atom list \<Rightarrow> string \<Rightarrow> string option" where
  "re_prefix [] s = Some s"
| "re_prefix (a # as) [] = None"
| "re_prefix (a # as) (c # cs) = (if re_atom_ok a c then re_prefix as cs else None)"

abbreviation re_lit :: "string \<Rightarrow> re_atom list" where
  "re_lit s \<equiv> map Lit s"

text \<open>A maximal non-empty run of a class, returned with the rest.\<close>

definition re_run1 :: "(char \<Rightarrow> bool) \<Rightarrow> string \<Rightarrow> (string \<times> string) option" where
  "re_run1 P s = (let g = takeWhile P s in if g = [] then None else Some (g, dropWhile P s))"

definition re_ws1 :: "string \<Rightarrow> string option" where
  "re_ws1 s = map_option snd (re_run1 py_isspace s)"

definition re_digits1 :: "string \<Rightarrow> string option" where
  "re_digits1 s = map_option snd (re_run1 py_isdigit s)"

text \<open>\<^verbatim>\<open>^key\s+:\s+(cls+)\<close>: the captured group, if the line matches.\<close>

definition re_key_colon_group :: "re_atom list \<Rightarrow> (char \<Rightarrow> bool) \<Rightarrow> string \<Rightarrow> string option" where
  "re_key_colon_group key cls line =
     Option.bind (re_prefix key line) (\<lambda>r.
     Option.bind (re_ws1 r) (\<lambda>r.
     Option.bind (re_prefix [Lit (CHR '':'')] r) (\<lambda>r.
     Option.bind (re_ws1 r) (\<lambda>r. map_option fst (re_run1 cls r)))))"

text \<open>\<^verbatim>\<open>^Node\s+\d+\s+key\s+(\d+)\<close>: the per-node meminfo lines.\<close>

definition re_node_key_group :: "re_atom list \<Rightarrow> string \<Rightarrow> string option" where
  "re_node_key_group key line =
     Option.bind (re_prefix (re_lit ''Node'') line) (\<lambda>r.
     Option.bind (re_ws1 r) (\<lambda>r.
     Option.bind (re_digits1 r) (\<lambda>r.
     Option.bind (re_ws1 r) (\<lambda>r.
     Option.bind (re_prefix key r) (\<lambda>r.
     Option.bind (re_ws1 r) (\<lambda>r. map_option fst (re_run1 py_isdigit r)))))))"

section \<open>Dictionaries\<close>

text \<open>
  A dictionary is an association list updated with \<^const>\<open>AList.update\<close>:
  an existing key keeps its place, a new one goes last, as in an
  insertion-ordered \<^verbatim>\<open>dict\<close>. \<open>dget\<close> reads an entry that the code
  creates empty on first use.
\<close>

definition dget :: "('k \<times> 'v list) list \<Rightarrow> 'k \<Rightarrow> 'v list" where
  "dget al k = (case map_of al k of None \<Rightarrow> [] | Some v \<Rightarrow> v)"

text \<open>
  A loop that appends one result per element and stops at the first
  exception.
\<close>

fun py_map :: "('a \<Rightarrow> 'b py_result) \<Rightarrow> 'a list \<Rightarrow> 'b list py_result" where
  "py_map f [] = Inr []"
| "py_map f (x # xs) = py_bind (f x) (\<lambda>y. py_bind (py_map f xs) (\<lambda>ys. Inr (y # ys)))"

text \<open>\<^verbatim>\<open>d.get(k, default)\<close> for an entry that may be absent.\<close>

definition dict_get :: "'a \<Rightarrow> 'a option \<Rightarrow> 'a" where
  "dict_get d v = (case v of None \<Rightarrow> d | Some x \<Rightarrow> x)"

section \<open>Lemmas on the primitives\<close>

lemma py_split_acc_no_sep [simp]:
  "sep \<notin> set xs \<Longrightarrow> py_split_acc sep acc xs = [rev acc @ xs]"
  by (induction xs arbitrary: acc) auto

lemma py_split_acc_sep:
  "sep \<notin> set xs \<Longrightarrow> py_split_acc sep acc (xs @ sep # ys) = (rev acc @ xs) # py_split_acc sep [] ys"
  by (induction xs arbitrary: acc) auto

lemma py_split_py_join:
  assumes "ws \<noteq> []" and "\<forall>w \<in> set ws. sep \<notin> set w"
  shows "py_split sep (py_join sep ws) = ws"
  using assms
proof (induction ws rule: induct_list012)
  case (3 w v vs)
  then have "py_split sep (py_join sep (w # v # vs)) = w # py_split sep (py_join sep (v # vs))"
    by (simp add: py_split_def py_split_acc_sep)
  with 3 show ?case by simp
qed (simp_all add: py_split_def)

lemma py_split_nonempty [simp]: "py_split sep s \<noteq> []"
proof -
  have "py_split_acc sep acc s \<noteq> []" for acc
    by (induction s arbitrary: acc) auto
  then show ?thesis by (simp add: py_split_def)
qed

lemma digits_val_snoc [simp]: "digits_val (xs @ [c]) = 10 * digits_val xs + digit_val c"
  by (simp add: digits_val_def)

lemma digit_val_char_of [simp]: "d < (10::nat) \<Longrightarrow> digit_val (char_of (48 + d)) = d"
  by (simp add: digit_val_def)

lemma py_isdigit_char_of [simp]: "d < (10::nat) \<Longrightarrow> py_isdigit (char_of (48 + d))"
  by (simp add: py_isdigit_def)

lemma py_isdigit_not_space [simp]: "py_isdigit c \<Longrightarrow> \<not> py_isspace c"
  by (auto simp: py_isdigit_def py_isspace_def)

lemma string_of_nat_digits: "list_all py_isdigit (string_of_nat n) \<and> string_of_nat n \<noteq> []"
proof (induction n rule: string_of_nat.induct)
  case (1 n)
  then show ?case by (simp add: string_of_nat.simps [of n])
qed

lemma digits_val_string_of_nat [simp]: "digits_val (string_of_nat n) = n"
proof (induction n rule: string_of_nat.induct)
  case (1 n)
  then show ?case
    by (subst string_of_nat.simps) (simp add: digits_val_def)
qed

lemma dropWhile_none: "\<forall>c \<in> set s. \<not> P c \<Longrightarrow> dropWhile P s = s"
  by (cases s) simp_all

lemma py_strip_no_space:
  assumes "\<forall>c \<in> set s. \<not> py_isspace c"
  shows "py_strip s = s"
  using assms by (simp add: py_strip_def dropWhile_none)

lemma py_int_digits_ok:
  "ds \<noteq> [] \<Longrightarrow> list_all py_isdigit ds \<Longrightarrow> py_int_digits ds = Inr (int (digits_val ds))"
  by (simp add: py_int_digits_def)

lemma py_int_of_digits:
  assumes "ds \<noteq> []" and "list_all py_isdigit ds"
  shows "py_int ds = Inr (int (digits_val ds))"
proof -
  have strip: "py_strip ds = ds"
    using assms(2) by (intro py_strip_no_space) (auto simp: list_all_iff)
  obtain c cs where ds: "ds = c # cs"
    using assms(1) by (meson neq_Nil_conv)
  have "py_isdigit c" using assms(2) ds by simp
  then have "c \<noteq> CHR ''-''" and "c \<noteq> CHR ''+''"
    by (auto simp: py_isdigit_def)
  then have "py_int ds = py_int_digits ds"
    unfolding py_int_def strip by (simp add: ds)
  then show ?thesis
    using assms by (simp add: py_int_digits_ok)
qed

lemma py_int_string_of_nat [simp]: "py_int (string_of_nat n) = Inr (int n)"
  using string_of_nat_digits [of n] by (simp add: py_int_of_digits)

lemma py_map_Inr:
  "py_map f xs = Inr ys \<longleftrightarrow> list_all2 (\<lambda>x y. f x = Inr y) xs ys"
  by (induction xs arbitrary: ys) (auto simp: list_all2_Cons1)

lemma py_map_length: "py_map f xs = Inr ys \<Longrightarrow> length ys = length xs"
  by (simp add: py_map_Inr list_all2_lengthD)

lemma py_in_prefix: "py_in p (p @ s)"
proof (cases p)
  case Nil
  then show ?thesis by (cases s) (simp_all add: py_startswith_def)
qed (simp add: py_startswith_def)

lemma py_strip_chars_frame:
  assumes "set pre \<subseteq> set cs" and "set suf \<subseteq> set cs"
    and "s \<noteq> []" and "hd s \<notin> set cs" and "last s \<notin> set cs"
  shows "py_strip_chars cs (pre @ s @ suf) = s"
proof -
  have "dropWhile (\<lambda>c. c \<in> set cs) (pre @ s @ suf) = dropWhile (\<lambda>c. c \<in> set cs) (s @ suf)"
    using assms(1) by (intro dropWhile_append2) auto
  also have "\<dots> = s @ suf"
    using assms(3,4) by (cases s) auto
  finally have 1: "dropWhile (\<lambda>c. c \<in> set cs) (pre @ s @ suf) = s @ suf" .
  have "dropWhile (\<lambda>c. c \<in> set cs) (rev suf @ rev s) = dropWhile (\<lambda>c. c \<in> set cs) (rev s)"
    using assms(2) by (intro dropWhile_append2) auto
  also have "\<dots> = rev s"
    using assms(3,5) by (cases s rule: rev_cases) auto
  finally show ?thesis
    by (simp add: py_strip_chars_def 1)
qed

lemma py_split_ws_space: "py_isspace c \<Longrightarrow> py_split_ws (c # s) = py_split_ws s"
  by (subst (1 2) py_split_ws.simps) simp

lemma py_split_ws_word:
  assumes "w \<noteq> []" and "list_all (\<lambda>c. \<not> py_isspace c) w" and "s = [] \<or> py_isspace (hd s)"
  shows "py_split_ws (w @ s) = w # py_split_ws s"
proof -
  have "dropWhile py_isspace (w @ s) = w @ s"
    using assms(1,2) by (cases w) auto
  moreover have "takeWhile (Not \<circ> py_isspace) (w @ s) = w"
    and "dropWhile (Not \<circ> py_isspace) (w @ s) = s"
    using assms(2,3) by (cases s, simp_all add: takeWhile_append2 dropWhile_append2 list_all_iff)+
  ultimately show ?thesis
    using assms(1) by (subst py_split_ws.simps) (simp add: Let_def)
qed

lemma py_split_ws_join:
  "list_all (\<lambda>w. w \<noteq> [] \<and> list_all (\<lambda>c. \<not> py_isspace c) w) ws \<Longrightarrow>
   py_split_ws (py_join (CHR '' '') ws) = ws"
proof (induction ws rule: induct_list012)
  case 1
  then show ?case by (simp add: py_split_ws.simps)
next
  case (2 w)
  then show ?case using py_split_ws_word [of w "[]"] by (simp add: py_split_ws.simps)
next
  case (3 w v vs)
  have sp: "py_isspace (CHR '' '')" by (simp add: py_isspace_def)
  have "py_split_ws (py_join (CHR '' '') (w # v # vs)) =
        w # py_split_ws (CHR '' '' # py_join (CHR '' '') (v # vs))"
    using 3(3) sp py_split_ws_word [of w "CHR '' '' # py_join (CHR '' '') (v # vs)"]
    by (simp del: py_split_ws.simps)
  also have "\<dots> = w # v # vs"
    using 3 sp by (simp add: py_split_ws_space del: py_split_ws.simps)
  finally show ?case .
qed

lemma string_of_nat_inj [simp]: "string_of_nat m = string_of_nat n \<longleftrightarrow> m = n"
  by (metis digits_val_string_of_nat)

lemma string_of_nat_char: "c \<in> set (string_of_nat n) \<Longrightarrow> py_isdigit c"
  using string_of_nat_digits [of n] by (auto simp: list_all_iff)

lemma set_py_join: "set (py_join sep ws) \<subseteq> insert sep (\<Union>w \<in> set ws. set w)"
  by (induction sep ws rule: py_join.induct) auto

lemma py_map_Inr_set: "py_map f xs = Inr ys \<Longrightarrow> y \<in> set ys \<Longrightarrow> \<exists>x \<in> set xs. f x = Inr y"
  by (induction xs arbitrary: ys) auto

lemma py_map_map_eq:
  "py_map f xs = Inr ys \<Longrightarrow> (\<And>x y. f x = Inr y \<Longrightarrow> g y = k x) \<Longrightarrow> map g ys = map k xs"
  by (induction xs arbitrary: ys) auto

lemma map_sum_Inr_ex: "map_sum id f r = Inr y \<Longrightarrow> \<exists>x. r = Inr x \<and> f x = y"
  by (cases r) auto

lemma concat_replicate_snoc: "concat (replicate k xs) @ xs = xs @ concat (replicate k xs)"
  by (induction k) auto

end
