(* ===== verification/RangeParser.thy ===== *)
theory RangeParser
  imports Prelude
begin

text \<open>
  The range parser \<^verbatim>\<open>NodeOperator.convert_range_string_to_list\<close>
  (\<^verbatim>\<open>inventory/agent/node.py\<close>, lines 123--136): a comma-separated list of
  integers and inclusive ranges \<^verbatim>\<open>a-b\<close> becomes the sorted list of the
  integers it names. One token is \<open>parse_range_part\<close>, the loop that
  extends \<^verbatim>\<open>olist\<close> token by token is \<open>extend_parts\<close>. Every
  \<^verbatim>\<open>int()\<close> failure and every failed \<^verbatim>\<open>a, b = part.split('-')\<close>
  raises \<^verbatim>\<open>ValueError\<close>, the only exception of this component.
\<close>

definition parse_range_part :: "string \<Rightarrow> int list py_result" where
  "parse_range_part part =
     (if CHR ''-'' \<in> set part then
        (case py_split (CHR ''-'') part of
           [a, b] \<Rightarrow> py_bind (py_int a) (\<lambda>a. py_bind (py_int b) (\<lambda>b. Inr [a..b]))
         | _ \<Rightarrow> Inl ValueError)
      else py_bind (py_int part) (\<lambda>a. Inr [a]))"

fun extend_parts :: "int list \<Rightarrow> string list \<Rightarrow> int list py_result" where
  "extend_parts olist [] = Inr olist"
| "extend_parts olist (part # parts) =
     py_bind (parse_range_part part) (\<lambda>l. extend_parts (olist @ l) parts)"

definition convert_range_string_to_list :: "string \<Rightarrow> int list py_result" where
  "convert_range_string_to_list s =
     (let s = py_strip s in
      py_bind (if s \<noteq> [] then extend_parts [] (py_split (CHR '','') s) else Inr [])
        (\<lambda>olist. Inr (sort olist)))"

subsection \<open>A printer for range strings\<close>

text \<open>
  The inverse direction, used to state the round trip: a token is a single
  number or a span \<^verbatim>\<open>a-b\<close>, printed with \<^verbatim>\<open>"%d"\<close> and joined by
  commas.
\<close>

datatype range_token = Single nat | Span nat nat

fun render_token :: "range_token \<Rightarrow> string" where
  "render_token (Single n) = string_of_nat n"
| "render_token (Span a b) = string_of_nat a @ CHR ''-'' # string_of_nat b"

fun token_values :: "range_token \<Rightarrow> int list" where
  "token_values (Single n) = [int n]"
| "token_values (Span a b) = [int a..int b]"

definition render_ranges :: "range_token list \<Rightarrow> string" where
  "render_ranges ts = py_join (CHR '','') (map render_token ts)"

subsection \<open>Behaviour of the loop\<close>

lemma extend_parts_Inr:
  "extend_parts acc parts = Inr xs \<longleftrightarrow>
     (\<exists>ls. list_all2 (\<lambda>p l. parse_range_part p = Inr l) parts ls \<and> xs = acc @ concat ls)"
proof (induction parts arbitrary: acc)
  case Nil
  then show ?case by auto
next
  case (Cons p ps)
  show ?case
  proof (cases "parse_range_part p")
    case (Inl e)
    then show ?thesis by (auto simp: list_all2_Cons1)
  next
    case (Inr l)
    then show ?thesis by (auto simp: Cons.IH list_all2_Cons1)
  qed
qed

lemma extend_parts_Inl:
  "extend_parts acc parts = Inl e \<longleftrightarrow>
     (\<exists>i < length parts. parse_range_part (parts ! i) = Inl e \<and>
        (\<forall>j < i. \<exists>l. parse_range_part (parts ! j) = Inr l))"
proof (induction parts arbitrary: acc)
  case Nil
  then show ?case by simp
next
  case (Cons p ps)
  show ?case
  proof (cases "parse_range_part p")
    case (Inl e')
    then show ?thesis by (auto simp: nth_Cons')
  next
    case (Inr l)
    have "(\<exists>i < Suc (length ps). parse_range_part ((p # ps) ! i) = Inl e \<and>
             (\<forall>j < i. \<exists>l. parse_range_part ((p # ps) ! j) = Inr l)) \<longleftrightarrow>
          (\<exists>i < length ps. parse_range_part (ps ! i) = Inl e \<and>
             (\<forall>j < i. \<exists>l. parse_range_part (ps ! j) = Inr l))"
      (is "?L \<longleftrightarrow> ?R")
    proof
      assume ?L
      then obtain i where i: "i < Suc (length ps)" "parse_range_part ((p # ps) ! i) = Inl e"
        and pre: "\<forall>j < i. \<exists>l. parse_range_part ((p # ps) ! j) = Inr l" by blast
      with Inr obtain k where "i = Suc k" by (cases i) auto
      with i pre show ?R by (auto intro!: exI [of _ k])
    next
      assume ?R
      then obtain k where k: "k < length ps" "parse_range_part (ps ! k) = Inl e"
        and pre: "\<forall>j < k. \<exists>l. parse_range_part (ps ! j) = Inr l" by blast
      have "\<forall>j < Suc k. \<exists>l. parse_range_part ((p # ps) ! j) = Inr l"
        using pre Inr by (auto simp: nth_Cons' less_Suc_eq_0_disj)
      with k show ?L by (intro exI [of _ "Suc k"]) auto
    qed
    with Inr show ?thesis by (simp add: Cons.IH)
  qed
qed

lemma parse_range_part_error: "parse_range_part p = Inl e \<Longrightarrow> e = ValueError"
  by (auto simp: parse_range_part_def py_int_def py_int_digits_def py_bind_eq_Inl
      split: list.splits if_splits)

lemma digit_not_sep:
  "py_isdigit c \<Longrightarrow> c \<noteq> CHR ''-'' \<and> c \<noteq> CHR '','' \<and> \<not> py_isspace c"
  by (auto simp: py_isdigit_def)

lemma string_of_nat_no_sep:
  "CHR ''-'' \<notin> set (string_of_nat n)" "CHR '','' \<notin> set (string_of_nat n)"
  using string_of_nat_char digit_not_sep by blast+

lemma parse_render_token: "parse_range_part (render_token t) = Inr (token_values t)"
proof (cases t)
  case (Single n)
  then show ?thesis
    by (simp add: parse_range_part_def string_of_nat_no_sep)
next
  case (Span a b)
  have "py_split (CHR ''-'') (string_of_nat a @ CHR ''-'' # string_of_nat b) =
          [string_of_nat a, string_of_nat b]"
    by (simp add: py_split_def py_split_acc_sep string_of_nat_no_sep)
  with Span show ?thesis
    by (simp add: parse_range_part_def)
qed

lemma render_token_char: "c \<in> set (render_token t) \<Longrightarrow> py_isdigit c \<or> c = CHR ''-''"
  by (cases t) (auto dest: string_of_nat_char)

lemma render_token_chars:
  "c \<in> set (render_token t) \<Longrightarrow> c \<noteq> CHR '','' \<and> \<not> py_isspace c"
  using render_token_char [of c t] digit_not_sep [of c] by (auto simp: py_isspace_def)

lemma extend_parts_render:
  "extend_parts acc (map render_token ts) = Inr (acc @ concat (map token_values ts))"
  by (induction ts arbitrary: acc) (simp_all add: parse_render_token)

lemma render_token_nonempty: "render_token t \<noteq> []"
  using string_of_nat_digits by (cases t) auto

lemma py_join_nonempty: "ws \<noteq> [] \<Longrightarrow> hd ws \<noteq> [] \<Longrightarrow> py_join sep ws \<noteq> []"
  by (induction sep ws rule: py_join.induct) auto

lemma parse_negative: "parse_range_part (CHR ''-'' # string_of_nat n) = Inl ValueError"
proof -
  have "py_split (CHR ''-'') (CHR ''-'' # string_of_nat n) = [[], string_of_nat n]"
    using py_split_acc_sep [of "CHR ''-''" "[]" "[]"] string_of_nat_no_sep
    by (simp add: py_split_def)
  then show ?thesis
    by (simp add: parse_range_part_def py_int_def py_strip_def)
qed

lemma convert_tokens:
  "convert_range_string_to_list s =
     py_bind (extend_parts [] (if py_strip s = [] then [] else py_split (CHR '','') (py_strip s)))
       (\<lambda>olist. Inr (sort olist))"
  by (simp add: convert_range_string_to_list_def Let_def)

subsection \<open>Properties of the range parser\<close>

text \<open>
  Claim C16: printing a list of tokens (single numbers and spans
  \<^verbatim>\<open>a-b\<close> of non-negative integers) and parsing it back gives the sorted
  list of the integers they name: the parser inverts the printer.
\<close>

theorem convert_render_ranges:
  "convert_range_string_to_list (render_ranges ts) = Inr (sort (concat (map token_values ts)))"
proof (cases "ts = []")
  case True
  then show ?thesis
    by (simp add: convert_range_string_to_list_def render_ranges_def py_strip_def)
next
  case False
  let ?s = "render_ranges ts"
  have no_sp: "\<forall>c \<in> set ?s. \<not> py_isspace c"
    using set_py_join [of "CHR '',''" "map render_token ts"] render_token_chars
    by (fastforce simp: render_ranges_def py_isspace_def)
  have ne: "?s \<noteq> []"
    using False render_token_nonempty
    by (simp add: render_ranges_def py_join_nonempty hd_map)
  have split: "py_split (CHR '','') ?s = map render_token ts"
    unfolding render_ranges_def
    by (rule py_split_py_join) (use False render_token_chars in auto)
  show ?thesis
    using no_sp ne split extend_parts_render [of "[]" ts]
    by (simp add: convert_range_string_to_list_def py_strip_no_space)
qed

text \<open>
  Claim C23: a negative number cannot be written: a token that starts with
  \<^verbatim>\<open>-\<close> is split at it and the empty left operand makes \<^verbatim>\<open>int('')\<close>
  raise, so \<^verbatim>\<open>"-n"\<close> raises \<^verbatim>\<open>ValueError\<close> for every \<open>n\<close>.
\<close>

theorem convert_range_string_to_list_negative:
  "convert_range_string_to_list (CHR ''-'' # string_of_nat n) = Inl ValueError"
proof -
  have "\<forall>c \<in> set (CHR ''-'' # string_of_nat n). \<not> py_isspace c \<and> c \<noteq> CHR '',''"
    using string_of_nat_char digit_not_sep by (auto simp: py_isspace_def)
  then have "py_strip (CHR ''-'' # string_of_nat n) = CHR ''-'' # string_of_nat n"
    and "py_split (CHR '','') (CHR ''-'' # string_of_nat n) = [CHR ''-'' # string_of_nat n]"
    by (simp_all add: py_strip_no_space py_split_def string_of_nat_no_sep)
  then show ?thesis
    by (simp add: convert_tokens parse_negative)
qed

end
