(* ===== verification/MemInfo.thy ===== *)
theory MemInfo
  imports Prelude
begin

text \<open>
  What the memory scans read from the host, and the parts of
  \<^verbatim>\<open>inventory/agent/node.py\<close> that read it: the per-node
  \<^verbatim>\<open>/sys/devices/system/node/nodeN/meminfo\<close> loops of
  \<^verbatim>\<open>_inode_get_memory_hugepages\<close> (lines 395--446) and
  \<^verbatim>\<open>_inode_get_memory_nonhugepages\<close> (lines 538--572), the overcommit
  check \<^verbatim>\<open>_is_strict\<close> (lines 110--121) and the PSS estimate (lines
  448--463). The host is a snapshot record: file contents as line lists,
  \<open>None\<close> for a file that cannot be opened or a directory that cannot be
  listed, and the outputs of the two shell commands.
\<close>

section \<open>The host snapshot\<close>

text \<open>
  A \<^verbatim>\<open>hugepages-<size>kB\<close> directory of a node: its name and its regular
  files (\<^verbatim>\<open>nr_hugepages\<close>, \<^verbatim>\<open>free_hugepages\<close>, ...) with their contents,
  \<open>None\<close> for a file that \<^verbatim>\<open>open\<close> refuses; the listing itself is
  \<open>None\<close> when \<^verbatim>\<open>listdir\<close> of the directory fails.
\<close>

record hugepage_dir =
  hp_dirname :: string
  hp_files :: "(string \<times> string option) list option"

text \<open>
  One NUMA node's sysfs directory: the listing of its \<^verbatim>\<open>hugepages\<close>
  subdirectories (\<open>None\<close> when \<^verbatim>\<open>os.listdir\<close> fails) and its
  \<^verbatim>\<open>meminfo\<close> lines (\<open>None\<close> when \<^verbatim>\<open>open\<close> fails).
\<close>

record numa_sysfs =
  hugepage_subdirs :: "hugepage_dir list option"
  node_meminfo_lines :: "string list option"

text \<open>
  The output of a shell command; \<open>CmdFailed\<close> is a command that ran and
  failed (\<^verbatim>\<open>CalledProcessError\<close>), \<open>CmdOSError\<close> one that could not
  be started (\<^verbatim>\<open>OSError\<close>).
\<close>

datatype cmd_result = CmdFailed | CmdOSError | CmdOutput string

text \<open>\<^verbatim>\<open>/etc/nova/compute_reserved.conf\<close>: absent, present but unreadable, or its lines.\<close>

datatype conf_file = NoFile | Unreadable | ConfLines "string list"

record host =
  cpuinfo :: "string list option"
  numa_dirs :: "(nat \<times> numa_sysfs) list"
  overcommit_memory :: cmd_result
  pss_output :: cmd_result
  compute_reserved_conf :: conf_file
  initial_compute_config_complete :: bool
  volatile_compute_config_complete :: bool
  nodetype :: string

definition missing_node :: numa_sysfs where
  "missing_node = \<lparr>hugepage_subdirs = None, node_meminfo_lines = None\<rparr>"

text \<open>\<^verbatim>\<open>/sys/devices/system/node/node%d\<close> of node \<open>n\<close>.\<close>

definition node_dir :: "host \<Rightarrow> nat \<Rightarrow> numa_sysfs" where
  "node_dir h n = dict_get missing_node (map_of (numa_dirs h) n)"

section \<open>Per-node meminfo\<close>

text \<open>
  The six patterns of lines 396--405. In Python 2 \<^verbatim>\<open>\M\<close>, \<^verbatim>\<open>\F\<close> and
  \<^verbatim>\<open>\C\<close> are the letters themselves, \<^verbatim>\<open>\S\<close> is any non-space character,
  and \<^verbatim>\<open>\'\<close> is a quote: the last pattern needs a line
  \<^verbatim>\<open>Node N 'Committed_AS: ...\<close>, which the kernel never writes.
\<close>

definition re_node_memtotal :: "string \<Rightarrow> string option" where
  "re_node_memtotal = re_node_key_group (re_lit ''MemTotal:'')"

definition re_node_memfree :: "string \<Rightarrow> string option" where
  "re_node_memfree = re_node_key_group (re_lit ''MemFree:'')"

definition re_node_filepages :: "string \<Rightarrow> string option" where
  "re_node_filepages = re_node_key_group (re_lit ''FilePages:'')"

definition re_node_sreclaim :: "string \<Rightarrow> string option" where
  "re_node_sreclaim = re_node_key_group (NonSpace # re_lit ''Reclaimable:'')"

definition re_node_commitlimit :: "string \<Rightarrow> string option" where
  "re_node_commitlimit = re_node_key_group (re_lit ''CommitLimit:'')"

definition re_node_committed_as :: "string \<Rightarrow> string option" where
  "re_node_committed_as = re_node_key_group (Lit (CHR 0x27) # re_lit ''Committed_AS:'')"

record meminfo_acc =
  free_kb :: int
  total_kb :: int
  limit :: int
  committed :: int

definition meminfo_zero :: meminfo_acc where
  "meminfo_zero = \<lparr>free_kb = 0, total_kb = 0, limit = 0, committed = 0\<rparr>"

text \<open>One line of the loop of lines 415--439.\<close>

definition meminfo_line :: "meminfo_acc \<Rightarrow> string \<Rightarrow> meminfo_acc" where
  "meminfo_line acc line =
     (case re_node_memtotal line of
        Some g \<Rightarrow> acc\<lparr>total_kb := total_kb acc + int (digits_val g)\<rparr>
      | None \<Rightarrow>
     (case re_node_memfree line of
        Some g \<Rightarrow> acc\<lparr>free_kb := free_kb acc + int (digits_val g)\<rparr>
      | None \<Rightarrow>
     (case re_node_filepages line of
        Some g \<Rightarrow> acc\<lparr>free_kb := free_kb acc + int (digits_val g)\<rparr>
      | None \<Rightarrow>
     (case re_node_sreclaim line of
        Some g \<Rightarrow> acc\<lparr>free_kb := free_kb acc + int (digits_val g)\<rparr>
      | None \<Rightarrow>
     (case re_node_commitlimit line of
        Some g \<Rightarrow> acc\<lparr>limit := int (digits_val g)\<rparr>
      | None \<Rightarrow>
     (case re_node_committed_as line of
        Some g \<Rightarrow> acc\<lparr>committed := int (digits_val g)\<rparr>
      | None \<Rightarrow> acc))))))"

definition meminfo_scan :: "string list \<Rightarrow> meminfo_acc" where
  "meminfo_scan lines = foldl meminfo_line meminfo_zero lines"

text \<open>
  \<^verbatim>\<open>_is_strict\<close>: \<^verbatim>\<open>int(output) == 2\<close> for the output of
  \<^verbatim>\<open>cat /proc/sys/vm/overcommit_memory\<close>; a failing command
  (\<^verbatim>\<open>CalledProcessError\<close>) means not strict; a command that cannot be
  started raises \<^verbatim>\<open>OSError\<close> and an output that is no integer raises
  \<^verbatim>\<open>ValueError\<close>, neither of them caught.
\<close>

definition is_strict :: "cmd_result \<Rightarrow> bool py_result" where
  "is_strict r =
     (case r of
        CmdFailed \<Rightarrow> Inr False
      | CmdOSError \<Rightarrow> Inl OSError
      | CmdOutput s \<Rightarrow> py_bind (py_int s) (\<lambda>n. Inr (n = 2)))"

text \<open>
  Lines 407--446: the loop, then under strict accounting
  \<^verbatim>\<open>free_kb = limit - committed\<close>; a meminfo file that cannot be opened
  leaves everything 0 (the \<^verbatim>\<open>IOError\<close> is caught, and
  \<^verbatim>\<open>_is_strict\<close> is not called).
\<close>

definition node_meminfo :: "string list option \<Rightarrow> cmd_result \<Rightarrow> meminfo_acc py_result" where
  "node_meminfo mi oc =
     (case mi of
        None \<Rightarrow> Inr meminfo_zero
      | Some lines \<Rightarrow>
          let acc = meminfo_scan lines in
          py_bind (is_strict oc)
            (\<lambda>strict. Inr (if strict then acc\<lparr>free_kb := limit acc - committed acc\<rparr> else acc)))"

text \<open>
  Lines 448--463: the PSS of all processes in MiB, for node 0 only. The
  pipeline's output goes through \<^verbatim>\<open>int()\<close> (a \<^verbatim>\<open>ValueError\<close> is not
  caught); both handlers, \<^verbatim>\<open>CalledProcessError\<close> and the
  \<^verbatim>\<open>OSError\<close> of \<^verbatim>\<open>Popen\<close>, leave it 0.
\<close>

definition pss_mb :: "nat \<Rightarrow> cmd_result \<Rightarrow> int py_result" where
  "pss_mb node r =
     (if node = 0 then
        (case r of CmdFailed \<Rightarrow> Inr 0 | CmdOSError \<Rightarrow> Inr 0 | CmdOutput s \<Rightarrow> py_int (py_strip s))
      else Inr 0)"

subsection \<open>The loop of the non-hugepage scan\<close>

text \<open>Lines 550--568: only the first four patterns.\<close>

definition meminfo_line_basic :: "int \<times> int \<Rightarrow> string \<Rightarrow> int \<times> int" where
  "meminfo_line_basic acc line =
     (let (total_mb, free_mb) = acc in
      case re_node_memtotal line of
        Some g \<Rightarrow> (total_mb + int (digits_val g), free_mb)
      | None \<Rightarrow>
     (case re_node_memfree line of
        Some g \<Rightarrow> (total_mb, free_mb + int (digits_val g))
      | None \<Rightarrow>
     (case re_node_filepages line of
        Some g \<Rightarrow> (total_mb, free_mb + int (digits_val g))
      | None \<Rightarrow>
     (case re_node_sreclaim line of
        Some g \<Rightarrow> (total_mb, free_mb + int (digits_val g))
      | None \<Rightarrow> (total_mb, free_mb)))))"

definition meminfo_scan_basic :: "string list \<Rightarrow> int \<times> int" where
  "meminfo_scan_basic lines = foldl meminfo_line_basic (0, 0) lines"

section \<open>Example input\<close>

text \<open>
  Node 0's meminfo on a host in strict overcommit mode with
  \<^verbatim>\<open>CommitLimit\<close> 1000 kB and \<^verbatim>\<open>Committed_AS\<close> 400 kB, the case of the
  specification.
\<close>

definition meminfo_strict_example :: "string list" where
  "meminfo_strict_example =
     [''Node 0 MemTotal:        4000 kB'', ''Node 0 MemFree:         3000 kB'',
      ''Node 0 FilePages:        100 kB'', ''Node 0 SReclaimable:      50 kB'',
      ''Node 0 CommitLimit:     1000 kB'', ''Node 0 Committed_AS:     400 kB'']"

section \<open>Properties of the meminfo loops\<close>

lemma re_prefix_set: "re_prefix ks s = Some r \<Longrightarrow> set r \<subseteq> set s"
  by (induction ks s rule: re_prefix.induct) (auto split: if_splits)

lemma re_prefix_Lit: "re_prefix (Lit c # ks) s \<noteq> None \<Longrightarrow> c \<in> set s"
  by (cases s) (auto split: if_splits)

lemma re_run1_set: "re_run1 P s = Some (g, r) \<Longrightarrow> set r \<subseteq> set s"
  by (auto simp: re_run1_def Let_def dest: set_dropWhileD split: if_splits)

lemma re_ws1_set: "re_ws1 s = Some r \<Longrightarrow> set r \<subseteq> set s"
  by (auto simp: re_ws1_def dest: re_run1_set)

lemma re_digits1_set: "re_digits1 s = Some r \<Longrightarrow> set r \<subseteq> set s"
  by (auto simp: re_digits1_def dest: re_run1_set)

lemma re_node_key_group_Lit:
  assumes "re_node_key_group (Lit c # ks) line \<noteq> None"
  shows "c \<in> set line"
proof -
  from assms obtain r1 r2 r3 r4 where
    "re_prefix (re_lit ''Node'') line = Some r1" "re_ws1 r1 = Some r2" "re_digits1 r2 = Some r3"
    "re_ws1 r3 = Some r4" "re_prefix (Lit c # ks) r4 \<noteq> None"
    by (auto simp: re_node_key_group_def Option.bind_eq_Some_conv bind_eq_None_conv
        split: Option.bind_splits)
  then show ?thesis
    by (meson re_prefix_Lit re_prefix_set re_ws1_set re_digits1_set subsetD)
qed

lemma meminfo_line_committed:
  "CHR 0x27 \<notin> set line \<Longrightarrow> committed (meminfo_line acc line) = committed acc"
  using re_node_key_group_Lit [of "CHR 0x27" "re_lit ''Committed_AS:''" line]
  by (auto simp: meminfo_line_def re_node_committed_as_def split: option.splits)

lemma meminfo_foldl_committed:
  "\<forall>l \<in> set lines. CHR 0x27 \<notin> set l \<Longrightarrow> committed (foldl meminfo_line acc lines) = committed acc"
  by (induction lines arbitrary: acc) (simp_all add: meminfo_line_committed)

lemma meminfo_foldl_basic:
  "foldl meminfo_line_basic (total_kb acc, free_kb acc) lines =
     (total_kb (foldl meminfo_line acc lines), free_kb (foldl meminfo_line acc lines))"
proof (induction lines arbitrary: acc)
  case Nil
  then show ?case by simp
next
  case (Cons l ls)
  have "meminfo_line_basic (total_kb acc, free_kb acc) l =
          (total_kb (meminfo_line acc l), free_kb (meminfo_line acc l))"
    by (simp add: meminfo_line_basic_def meminfo_line_def split: option.splits)
  then show ?case
    using Cons.IH [of "meminfo_line acc l"] by simp
qed

lemma meminfo_scan_committed:
  "\<forall>l \<in> set lines. CHR 0x27 \<notin> set l \<Longrightarrow> committed (meminfo_scan lines) = 0"
  using meminfo_foldl_committed [of lines meminfo_zero]
  by (simp add: meminfo_scan_def meminfo_zero_def)

text \<open>
  Claim C13: on any meminfo file without a quote character (every file the
  kernel writes), strict overcommit accounting sets \<^verbatim>\<open>free_kb\<close> to
  \<^verbatim>\<open>CommitLimit\<close> itself: \<^verbatim>\<open>Committed_AS\<close> is never read, so
  \<^verbatim>\<open>committed\<close> stays 0 and is not subtracted.
\<close>

theorem node_meminfo_strict_ignores_committed:
  assumes "list_all (\<lambda>l. CHR 0x27 \<notin> set l) lines" and "is_strict oc = Inr True"
  shows "node_meminfo (Some lines) oc =
           Inr ((meminfo_scan lines)\<lparr>free_kb := limit (meminfo_scan lines)\<rparr>)"
  using assms meminfo_scan_committed [of lines]
  by (simp add: node_meminfo_def Let_def list_all_iff)

lemma meminfo_scan_basic_eq:
  "meminfo_scan_basic lines = (total_kb (meminfo_scan lines), free_kb (meminfo_scan lines))"
  using meminfo_foldl_basic [of meminfo_zero lines]
  by (simp add: meminfo_scan_basic_def meminfo_scan_def meminfo_zero_def)

theorem node_meminfo_strict_ignores_committed_witness:
  "node_meminfo (Some meminfo_strict_example) (CmdOutput ''2'') =
     Inr ((meminfo_scan meminfo_strict_example)\<lparr>free_kb := limit (meminfo_scan meminfo_strict_example)\<rparr>)"
proof -
  have q: "list_all (\<lambda>l. CHR 0x27 \<notin> set l) meminfo_strict_example"
    by code_simp
  have s: "is_strict (CmdOutput ''2'') = Inr True"
    by code_simp
  show ?thesis
    using node_meminfo_strict_ignores_committed [OF q s] .
qed

end
