(* ===== verification/Reservation.thy ===== *)
theory Reservation
  imports MemInfo
begin

text \<open>
  The module constants of \<^verbatim>\<open>inventory/agent/node.py\<close> (lines 25--51)
  and the base-memory reservation policy of
  \<^verbatim>\<open>_inode_get_memory_hugepages\<close>: the per-node entries of
  \<^verbatim>\<open>COMPUTE_BASE_RESERVED\<close> in \<^verbatim>\<open>/etc/nova/compute_reserved.conf\<close>
  (lines 469--478, \<open>base_mem_mb\<close>) and the clipping on small nodes
  (lines 480--488, \<open>clip_base_mem\<close>). A printer of the configuration
  line, \<open>render_reserved_conf\<close>, states what the parser reads back.
\<close>

section \<open>Constants\<close>

text \<open>Lines 25--51.\<close>

definition VSWITCH_MEMORY_MB :: int where "VSWITCH_MEMORY_MB = 1024"
definition SIZE_KB :: int where "SIZE_KB = 1024"
definition SIZE_2M_KB :: int where "SIZE_2M_KB = 2048"
definition SIZE_1G_KB :: int where "SIZE_1G_KB = 1048576"
definition SIZE_2M_MB :: int where "SIZE_2M_MB = SIZE_2M_KB div SIZE_KB"
definition SIZE_1G_MB :: int where "SIZE_1G_MB = SIZE_1G_KB div SIZE_KB"
definition CONTROLLER_MIN_MB :: int where "CONTROLLER_MIN_MB = 6000"
definition COMPUTE_MIN_MB :: int where "COMPUTE_MIN_MB = 1600"
definition COMPUTE_MIN_NON_0_MB :: int where "COMPUTE_MIN_NON_0_MB = 500"

section \<open>The reservation policy\<close>

text \<open>
  Lines 475--478: the entries \<^verbatim>\<open>"nodeN:valueMB:..."\<close> of the
  \<^verbatim>\<open>COMPUTE_BASE_RESERVED\<close> value; the last entry of the node wins, and a
  malformed entry of the node raises.
\<close>

fun reserve_entries :: "nat \<Rightarrow> int \<Rightarrow> string list \<Rightarrow> int py_result" where
  "reserve_entries node base [] = Inr base"
| "reserve_entries node base (r # rs) =
     (let parts = py_split (CHR '':'') r in
      if py_strip_chars [CHR 0x22] (hd parts) = ''node'' @ string_of_nat node then
        py_bind (py_index parts 1) (\<lambda>v. py_bind (py_int (py_strip_chars ''MB'' v)) (\<lambda>b.
          reserve_entries node b rs))
      else reserve_entries node base rs)"

text \<open>Lines 471--478: one line of the file.\<close>

definition reserved_conf_line :: "nat \<Rightarrow> int \<Rightarrow> string \<Rightarrow> int py_result" where
  "reserved_conf_line node base line =
     (if py_in ''COMPUTE_BASE_RESERVED'' line then
        py_bind (py_index (py_split (CHR ''='') line) 1) (\<lambda>v.
          reserve_entries node base (py_split_ws (py_slice_inner (py_strip_chars [CHR 0x0A] v))))
      else Inr base)"

fun reserved_conf_lines :: "nat \<Rightarrow> int \<Rightarrow> string list \<Rightarrow> int py_result" where
  "reserved_conf_lines node base [] = Inr base"
| "reserved_conf_lines node base (l # ls) =
     py_bind (reserved_conf_line node base l) (\<lambda>b. reserved_conf_lines node b ls)"

text \<open>Lines 469--478: the node's base reservation, 0 when the file names none.\<close>

definition base_mem_mb :: "nat \<Rightarrow> conf_file \<Rightarrow> int py_result" where
  "base_mem_mb node conf =
     (case conf of
        ConfLines ls \<Rightarrow> reserved_conf_lines node 0 ls
      | _ \<Rightarrow> Inl IOError)"

text \<open>
  Lines 480--488: on a small node the reservation is replaced by a fixed
  floor: 1600 MiB on node 0 (7600 on a controller), 500 MiB elsewhere.
\<close>

definition clip_base_mem :: "nat \<Rightarrow> string \<Rightarrow> int \<Rightarrow> int \<Rightarrow> int" where
  "clip_base_mem node ntype mem_kb base =
     (if mem_kb div SIZE_KB - base < 1000 then
        (if node = 0 then COMPUTE_MIN_MB + (if ntype = ''controller'' then CONTROLLER_MIN_MB else 0)
         else COMPUTE_MIN_NON_0_MB)
      else base)"

section \<open>The configuration line\<close>

text \<open>
  The line the configuration tool writes: entries
  \<^verbatim>\<open>"nodeN:valueMB:cores"\<close>, separated by spaces, in parentheses.
\<close>

definition reserve_entry :: "nat \<times> nat \<times> nat \<Rightarrow> string" where
  "reserve_entry e = (case e of (n, mb, c) \<Rightarrow>
     [CHR 0x22] @ ''node'' @ string_of_nat n @ '':'' @ string_of_nat mb @ ''MB:'' @ string_of_nat c @ [CHR 0x22])"

definition render_reserved_conf :: "(nat \<times> nat \<times> nat) list \<Rightarrow> string" where
  "render_reserved_conf es =
     ''COMPUTE_BASE_RESERVED=('' @ py_join (CHR '' '') (map reserve_entry es) @ '')'' @ [CHR 0x0A]"

text \<open>What the entries reserve on a node: the last entry naming it, 0 without one.\<close>

definition reserved_mb :: "(nat \<times> nat \<times> nat) list \<Rightarrow> nat \<Rightarrow> int" where
  "reserved_mb es node =
     (case map_of (rev (map (\<lambda>(n, mb, c). (n, int mb)) es)) node of None \<Rightarrow> 0 | Some b \<Rightarrow> b)"

text \<open>
  The entry format \<^verbatim>\<open>"nodeN":"valueMB"\<close> that the design document
  describes, with both fields quoted.
\<close>

definition quoted_pair_entry :: "nat \<Rightarrow> nat \<Rightarrow> string" where
  "quoted_pair_entry n mb =
     [CHR 0x22] @ ''node'' @ string_of_nat n @ [CHR 0x22, CHR '':'', CHR 0x22] @ string_of_nat mb @ ''MB'' @ [CHR 0x22]"

section \<open>Lemmas on the reservation policy\<close>

lemmas size_constants =
  VSWITCH_MEMORY_MB_def SIZE_KB_def SIZE_2M_KB_def SIZE_1G_KB_def SIZE_2M_MB_def SIZE_1G_MB_def
  CONTROLLER_MIN_MB_def COMPUTE_MIN_MB_def COMPUTE_MIN_NON_0_MB_def

lemma string_of_nat_plain:
  "c \<in> set (string_of_nat n) \<Longrightarrow>
   c \<noteq> CHR '':'' \<and> c \<noteq> CHR 0x22 \<and> c \<noteq> CHR ''M'' \<and> c \<noteq> CHR ''B'' \<and> c \<noteq> CHR ''='' \<and>
   c \<noteq> CHR 0x0A \<and> \<not> py_isspace c"
  by (drule string_of_nat_char) (auto simp: py_isdigit_def)

lemma string_of_nat_ends:
  "string_of_nat n \<noteq> [] \<and> hd (string_of_nat n) \<in> set (string_of_nat n) \<and>
   last (string_of_nat n) \<in> set (string_of_nat n)"
  using string_of_nat_digits [of n] by simp

lemma reserve_entry_split:
  "py_split (CHR '':'') (reserve_entry (n, mb, c)) =
     [[CHR 0x22] @ ''node'' @ string_of_nat n, string_of_nat mb @ ''MB'', string_of_nat c @ [CHR 0x22]]"
proof -
  have "reserve_entry (n, mb, c) =
        py_join (CHR '':'') [[CHR 0x22] @ ''node'' @ string_of_nat n, string_of_nat mb @ ''MB'', string_of_nat c @ [CHR 0x22]]"
    by (simp add: reserve_entry_def)
  moreover have "py_split (CHR '':'') (py_join (CHR '':'')
      [[CHR 0x22] @ ''node'' @ string_of_nat n, string_of_nat mb @ ''MB'', string_of_nat c @ [CHR 0x22]]) =
      [[CHR 0x22] @ ''node'' @ string_of_nat n, string_of_nat mb @ ''MB'', string_of_nat c @ [CHR 0x22]]"
    by (rule py_split_py_join) (auto dest: string_of_nat_plain)
  ultimately show ?thesis by simp
qed

lemma reserve_entry_node:
  "py_strip_chars [CHR 0x22] ([CHR 0x22] @ ''node'' @ string_of_nat n) = ''node'' @ string_of_nat n"
  using py_strip_chars_frame [of "[CHR 0x22]" "[CHR 0x22]" "[]" "''node'' @ string_of_nat n"]
    string_of_nat_ends [of n] string_of_nat_plain [of "last (string_of_nat n)" n]
  by simp

lemma reserve_entry_value:
  "py_strip_chars ''MB'' (string_of_nat mb @ ''MB'') = string_of_nat mb"
  using py_strip_chars_frame [of "[]" "''MB''" "''MB''" "string_of_nat mb"]
    string_of_nat_ends [of mb] string_of_nat_plain [of "hd (string_of_nat mb)" mb]
    string_of_nat_plain [of "last (string_of_nat mb)" mb]
  by simp

lemma reserve_entries_entry:
  "reserve_entries node base (reserve_entry (n, mb, c) # rs) =
     reserve_entries node (if n = node then int mb else base) rs"
proof -
  have "reserve_entries node base (reserve_entry (n, mb, c) # rs) =
        (if ''node'' @ string_of_nat n = ''node'' @ string_of_nat node then
           py_bind (py_index [[CHR 0x22] @ ''node'' @ string_of_nat n, string_of_nat mb @ ''MB'',
                              string_of_nat c @ [CHR 0x22]] 1)
             (\<lambda>v. py_bind (py_int (py_strip_chars ''MB'' v)) (\<lambda>b. reserve_entries node b rs))
         else reserve_entries node base rs)"
    by (simp only: reserve_entries.simps Let_def reserve_entry_split list.sel reserve_entry_node)
  also have "\<dots> = reserve_entries node (if n = node then int mb else base) rs"
    by (simp only: same_append_eq string_of_nat_inj) (simp add: py_index_def reserve_entry_value)
  finally show ?thesis .
qed

lemma reserve_entries_render:
  "reserve_entries node base (map reserve_entry es) =
     Inr (case map_of (rev (map (\<lambda>(n, mb, c). (n, int mb)) es)) node of None \<Rightarrow> base | Some b \<Rightarrow> b)"
proof (induction es arbitrary: base)
  case (Cons e es)
  obtain n mb c where e: "e = (n, mb, c)" by (cases e) auto
  show ?case
    by (auto simp: e reserve_entries_entry Cons map_of_append map_add_def simp del: reserve_entries.simps split: option.splits)
qed simp

lemma reserve_entry_chars:
  "c \<in> set (reserve_entry e) \<Longrightarrow> c \<noteq> CHR ''='' \<and> \<not> py_isspace c"
  by (cases e) (auto simp: reserve_entry_def py_isspace_def dest: string_of_nat_plain)

lemma reserved_conf_line_render:
  "reserved_conf_line node base (render_reserved_conf es) = reserve_entries node base (map reserve_entry es)"
proof -
  define j where "j = py_join (CHR '' '') (map reserve_entry es)"
  define body where "body = CHR ''('' # j @ CHR '')'' # [CHR 0x0A]"
  have line: "render_reserved_conf es = ''COMPUTE_BASE_RESERVED'' @ CHR ''='' # body"
    by (simp add: render_reserved_conf_def body_def j_def)
  have j_chars: "c \<in> set j \<Longrightarrow> c \<noteq> CHR ''='' \<and> c \<noteq> CHR 0x0A" for c
    using set_py_join [of "CHR '' ''" "map reserve_entry es"]
    by (auto simp: j_def py_isspace_def dest!: reserve_entry_chars)
  have "py_split (CHR ''='') (py_join (CHR ''='') [''COMPUTE_BASE_RESERVED'', body]) =
        [''COMPUTE_BASE_RESERVED'', body]"
    using j_chars by (intro py_split_py_join) (auto simp: body_def)
  then have split: "py_split (CHR ''='') (render_reserved_conf es) = [''COMPUTE_BASE_RESERVED'', body]"
    by (simp add: line)
  have strip: "py_strip_chars [CHR 0x0A] body = CHR ''('' # j @ [CHR '')'']"
    using py_strip_chars_frame [of "[]" "[CHR 0x0A]" "[CHR 0x0A]" "CHR ''('' # j @ [CHR '')'']"]
    by (simp add: body_def)
  have words: "py_split_ws j = map reserve_entry es"
    unfolding j_def
  proof (rule py_split_ws_join)
    have "reserve_entry e \<noteq> []" for e
      by (cases e) (simp add: reserve_entry_def)
    then show "list_all (\<lambda>w. w \<noteq> [] \<and> list_all (\<lambda>c. \<not> py_isspace c) w) (map reserve_entry es)"
      by (auto simp: list_all_iff dest: reserve_entry_chars)
  qed
  have "py_in ''COMPUTE_BASE_RESERVED'' (render_reserved_conf es)"
    unfolding line by (rule py_in_prefix)
  then show ?thesis
    by (simp add: reserved_conf_line_def split py_index_def strip py_slice_inner_def words
             del: reserve_entries.simps)
qed

lemma reserved_conf_lines_skip:
  "list_all (\<lambda>l. \<not> py_in ''COMPUTE_BASE_RESERVED'' l) ls \<Longrightarrow>
   reserved_conf_lines node base (ls @ rest) = reserved_conf_lines node base rest"
  by (induction ls) (simp_all add: reserved_conf_line_def)

text \<open>
  Claim C10. The configuration line round trip: the line that
  \<open>render_reserved_conf\<close> writes, among lines without the directive, is
  read back by the code as the value of the last entry naming the node, or
  0 when none does.
\<close>

theorem base_mem_mb_render:
  assumes "list_all (\<lambda>l. \<not> py_in ''COMPUTE_BASE_RESERVED'' l) (pre @ post)"
  shows "base_mem_mb node (ConfLines (pre @ render_reserved_conf es # post)) = Inr (reserved_mb es node)"
proof -
  have "reserved_conf_lines node (reserved_mb es node) post = Inr (reserved_mb es node)"
    using assms by (induction post) (simp_all add: reserved_conf_line_def)
  then show ?thesis
    using assms reserved_conf_lines_skip [of pre node 0]
    by (simp add: base_mem_mb_def reserved_conf_line_render reserve_entries_render reserved_mb_def
             del: reserve_entries.simps split: option.splits)
qed

lemma quoted_pair_split:
  "py_split (CHR '':'') (quoted_pair_entry n mb) =
     [[CHR 0x22] @ ''node'' @ string_of_nat n @ [CHR 0x22], [CHR 0x22] @ string_of_nat mb @ ''MB'' @ [CHR 0x22]]"
proof -
  have "quoted_pair_entry n mb =
        py_join (CHR '':'') [[CHR 0x22] @ ''node'' @ string_of_nat n @ [CHR 0x22], [CHR 0x22] @ string_of_nat mb @ ''MB'' @ [CHR 0x22]]"
    by (simp add: quoted_pair_entry_def)
  moreover have "py_split (CHR '':'') (py_join (CHR '':'')
      [[CHR 0x22] @ ''node'' @ string_of_nat n @ [CHR 0x22], [CHR 0x22] @ string_of_nat mb @ ''MB'' @ [CHR 0x22]]) =
      [[CHR 0x22] @ ''node'' @ string_of_nat n @ [CHR 0x22], [CHR 0x22] @ string_of_nat mb @ ''MB'' @ [CHR 0x22]]"
    by (rule py_split_py_join) (auto dest: string_of_nat_plain)
  ultimately show ?thesis by simp
qed

lemma quoted_pair_entries:
  "reserve_entries node base [quoted_pair_entry node mb] = Inl ValueError"
proof -
  have key: "py_strip_chars [CHR 0x22] ([CHR 0x22] @ (''node'' @ string_of_nat node) @ [CHR 0x22]) =
             ''node'' @ string_of_nat node"
    using string_of_nat_ends [of node] string_of_nat_plain [of "last (string_of_nat node)" node]
    by (intro py_strip_chars_frame) auto
  have v: "py_strip_chars ''MB'' ([] @ ([CHR 0x22] @ string_of_nat mb @ ''MB'' @ [CHR 0x22]) @ []) =
           [CHR 0x22] @ string_of_nat mb @ ''MB'' @ [CHR 0x22]"
    by (intro py_strip_chars_frame) auto
  have "py_strip ([CHR 0x22] @ string_of_nat mb @ ''MB'' @ [CHR 0x22]) =
        [CHR 0x22] @ string_of_nat mb @ ''MB'' @ [CHR 0x22]"
    by (rule py_strip_no_space) (auto simp: py_isspace_def dest: string_of_nat_plain)
  then have "py_int ([CHR 0x22] @ string_of_nat mb @ ''MB'' @ [CHR 0x22]) = Inl ValueError"
    by (simp add: py_int_def py_int_digits_def py_isdigit_def)
  then show ?thesis
    using key v by (simp add: Let_def quoted_pair_split py_index_def)
qed

text \<open>
  Claim C20. The entry format \<^verbatim>\<open>"nodeN":"valueMB"\<close> that the design
  document gives is not what the code parses: an entry of that form for the
  node makes the scan raise \<^verbatim>\<open>ValueError\<close>, where the document says
  malformed entries are skipped.
\<close>

theorem base_mem_mb_quoted_pair:
  "base_mem_mb node (ConfLines [''COMPUTE_BASE_RESERVED=('' @ quoted_pair_entry node mb @ '')'']) =
     Inl ValueError"
proof -
  define q where "q = quoted_pair_entry node mb"
  have q_chars: "c \<in> set q \<Longrightarrow> c \<noteq> CHR ''='' \<and> c \<noteq> CHR 0x0A \<and> \<not> py_isspace c" for c
    by (auto simp: q_def quoted_pair_entry_def py_isspace_def dest: string_of_nat_plain)
  have "py_split (CHR ''='') (py_join (CHR ''='') [''COMPUTE_BASE_RESERVED'', CHR ''('' # q @ '')'']) =
        [''COMPUTE_BASE_RESERVED'', CHR ''('' # q @ '')'']"
    using q_chars by (intro py_split_py_join) auto
  then have split: "py_split (CHR ''='') (''COMPUTE_BASE_RESERVED=('' @ q @ '')'') =
                    [''COMPUTE_BASE_RESERVED'', CHR ''('' # q @ '')'']"
    by simp
  have strip: "py_strip_chars [CHR 0x0A] ([] @ (CHR ''('' # q @ '')'') @ []) = CHR ''('' # q @ '')''"
    by (intro py_strip_chars_frame) auto
  have q_ne: "q \<noteq> []" by (simp add: q_def quoted_pair_entry_def)
  have words: "py_split_ws (q @ []) = [q]"
    using py_split_ws_word [of q "[]"] q_chars q_ne by (simp add: list_all_iff py_split_ws.simps)
  have "py_in ''COMPUTE_BASE_RESERVED'' (''COMPUTE_BASE_RESERVED'' @ ''=('' @ q @ '')'')"
    by (rule py_in_prefix)
  then show ?thesis
    using split strip words quoted_pair_entries [of node 0 mb]
    by (simp add: base_mem_mb_def reserved_conf_line_def py_index_def py_slice_inner_def q_def
             del: reserve_entries.simps)
qed

theorem base_mem_mb_render_witness:
  "base_mem_mb 1 (ConfLines ([''# reserved memory''] @ render_reserved_conf [(0, 8000, 1), (1, 2000, 0)] # [])) =
     Inr 2000"
  using base_mem_mb_render [of "[''# reserved memory'']" "[]" 1 "[(0, 8000, 1), (1, 2000, 0)]"]
  by (simp add: reserved_mb_def py_startswith_def)

end
