(* ===== verification/Hugepages.thy ===== *)
theory Hugepages
  imports Reservation
begin

text \<open>
  The hugepage memory scan \<^verbatim>\<open>NodeOperator._inode_get_memory_hugepages\<close>
  (\<^verbatim>\<open>inventory/agent/node.py\<close>, lines 294--527) with the reservation
  policy it applies: per NUMA node the hugepage directories are counted
  (\<open>hp_subdirs_loop\<close>), the node's meminfo read (\<open>node_meminfo\<close>, theory
  \<open>MemInfo\<close>), the PSS added on node 0, the base reservation read from
  \<^verbatim>\<open>compute_reserved.conf\<close> and clipped (\<open>base_mem_mb\<close>,
  \<open>clip_base_mem\<close>, theory \<open>Reservation\<close>), and the VM hugepage capacity derived
  (\<open>hugepage_node\<close>). Python 2 semantics: \<^verbatim>\<open>/\<close> on integers is floor
  division (HOL's \<open>div\<close> on \<open>int\<close>).
\<close>

section \<open>The reported attributes\<close>

text \<open>
  The dictionary \<^verbatim>\<open>attr\<close> reported for one node: every key may be absent,
  and \<^verbatim>\<open>update\<close> overwrites the keys it names. The 2M counts become
  floats in the initial report (\<open>pynum\<close>).
\<close>

record mem_attr =
  vswitch_hugepages_size_mib :: "int option"
  vswitch_hugepages_nr :: "int option"
  vswitch_hugepages_avail :: "int option"
  vm_hugepages_nr_1G :: "pynum option"
  vm_hugepages_avail_1G :: "int option"
  vm_hugepages_use_1G :: "string option"
  vm_hugepages_nr_2M :: "pynum option"
  vm_hugepages_avail_2M :: "pynum option"
  vm_hugepages_possible_2M :: "int option"
  vm_hugepages_possible_1G :: "int option"
  numa_node :: "nat option"
  memtotal_mib :: "int option"
  memavail_mib :: "int option"
  hugepages_configured :: "string option"
  node_memtotal_mib :: "int option"

definition empty_attr :: mem_attr where
  "empty_attr =
     \<lparr>vswitch_hugepages_size_mib = None, vswitch_hugepages_nr = None,
      vswitch_hugepages_avail = None, vm_hugepages_nr_1G = None, vm_hugepages_avail_1G = None,
      vm_hugepages_use_1G = None, vm_hugepages_nr_2M = None, vm_hugepages_avail_2M = None,
      vm_hugepages_possible_2M = None, vm_hugepages_possible_1G = None, numa_node = None,
      memtotal_mib = None, memavail_mib = None, hugepages_configured = None,
      node_memtotal_mib = None\<rparr>"

section \<open>Hugepage directories\<close>

text \<open>
  Lines 346--352: every file of a size directory is opened (an
  \<^verbatim>\<open>IOError\<close> aborts); \<^verbatim>\<open>nr_hugepages*\<close> and \<^verbatim>\<open>free_hugepages*\<close>
  are read with \<^verbatim>\<open>int(f.readline())\<close>.
\<close>

fun hp_read_files :: "int \<times> int \<Rightarrow> (string \<times> string option) list \<Rightarrow> (int \<times> int) py_result" where
  "hp_read_files (nr, fr) [] = Inr (nr, fr)"
| "hp_read_files (nr, fr) ((name, None) # fs) = Inl IOError"
| "hp_read_files (nr, fr) ((name, Some content) # fs) =
     py_bind (if py_startswith name ''nr_hugepages'' then py_int (py_readline content) else Inr nr)
       (\<lambda>nr. py_bind (if py_startswith name ''free_hugepages'' then py_int (py_readline content) else Inr fr)
         (\<lambda>fr. hp_read_files (nr, fr) fs))"

record hp_acc =
  total_hp_mb :: int
  free_hp_mb :: int
  attr :: mem_attr

definition hp_zero :: hp_acc where
  "hp_zero = \<lparr>total_hp_mb = 0, free_hp_mb = 0, attr = empty_attr\<rparr>"

text \<open>
  The page size of a directory (lines 333--337): 1 GiB when the part after
  the first dash starts with \<^verbatim>\<open>1048576kB\<close>, 2 MiB otherwise;
  \<^verbatim>\<open>sizesplit[1]\<close> raises \<^verbatim>\<open>IndexError\<close> on a name without a dash.
\<close>

definition hp_size_mb :: "string \<Rightarrow> int py_result" where
  "hp_size_mb name =
     py_bind (py_index (py_split (CHR ''-'') name) 1)
       (\<lambda>s. Inr (if py_startswith s ''1048576kB'' then SIZE_1G_MB else SIZE_2M_MB))"

text \<open>
  The attributes one directory sets (lines 357--389): 1 GiB pages carry the
  vswitch reservation of \<^verbatim>\<open>VSWITCH_MEMORY_MB / size\<close> pages; 2 MiB pages
  carry it only when they are the node's only page size.
\<close>

definition hp_attr_update :: "nat \<Rightarrow> int \<Rightarrow> int \<Rightarrow> int \<Rightarrow> mem_attr \<Rightarrow> mem_attr" where
  "hp_attr_update n_subdirs sz nr fr a =
     (if sz = SIZE_1G_MB then
        (let vsw = VSWITCH_MEMORY_MB div sz in
         a\<lparr>vswitch_hugepages_size_mib := Some sz, vswitch_hugepages_nr := Some vsw,
           vswitch_hugepages_avail := Some 0, vm_hugepages_nr_1G := Some (PyInt (nr - vsw)),
           vm_hugepages_avail_1G := Some fr, vm_hugepages_use_1G := Some ''True''\<rparr>)
      else if n_subdirs = 1 then
        (let vsw = VSWITCH_MEMORY_MB div sz in
         a\<lparr>vswitch_hugepages_size_mib := Some sz, vswitch_hugepages_nr := Some vsw,
           vswitch_hugepages_avail := Some 0, vm_hugepages_use_1G := Some ''False'',
           vm_hugepages_avail_2M := Some (PyInt fr), vm_hugepages_nr_2M := Some (PyInt (nr - vsw))\<rparr>)
      else
        a\<lparr>vm_hugepages_avail_2M := Some (PyInt fr), vm_hugepages_nr_2M := Some (PyInt nr)\<rparr>)"

text \<open>
  Lines 342--352: the files of a size directory are listed (an
  \<^verbatim>\<open>OSError\<close> of \<^verbatim>\<open>listdir\<close> is not caught) and read.
\<close>

definition hp_dir_files :: "hugepage_dir \<Rightarrow> (int \<times> int) py_result" where
  "hp_dir_files d = (case hp_files d of None \<Rightarrow> Inl OSError | Some fs \<Rightarrow> hp_read_files (0, 0) fs)"

text \<open>One directory of the loop of lines 331--389.\<close>

definition hp_subdir_step :: "nat \<Rightarrow> hp_acc \<Rightarrow> hugepage_dir \<Rightarrow> hp_acc py_result" where
  "hp_subdir_step n_subdirs acc d =
     py_bind (hp_size_mb (hp_dirname d)) (\<lambda>sz.
     py_bind (hp_dir_files d) (\<lambda>(nr, fr).
     Inr \<lparr>total_hp_mb = total_hp_mb acc + nr * sz, free_hp_mb = free_hp_mb acc + fr * sz,
          attr = hp_attr_update n_subdirs sz nr fr (attr acc)\<rparr>))"

text \<open>
  The loop inside \<^verbatim>\<open>try: ... except IOError: pass\<close> (lines 328--393): an
  \<^verbatim>\<open>IOError\<close> ends it with what the earlier directories counted, any other
  exception propagates.
\<close>

fun hp_subdirs_loop :: "nat \<Rightarrow> hp_acc \<Rightarrow> hugepage_dir list \<Rightarrow> hp_acc py_result" where
  "hp_subdirs_loop n acc [] = Inr acc"
| "hp_subdirs_loop n acc (d # ds) =
     (case hp_subdir_step n acc d of
        Inl IOError \<Rightarrow> Inr acc
      | Inl e \<Rightarrow> Inl e
      | Inr acc' \<Rightarrow> hp_subdirs_loop n acc' ds)"

text \<open>
  Lines 326--329: \<^verbatim>\<open>os.listdir\<close> of a missing directory raises
  \<^verbatim>\<open>OSError\<close>, which the \<^verbatim>\<open>except IOError\<close> of Python 2 does not catch.
\<close>

definition hugepage_accounting :: "hugepage_dir list option \<Rightarrow> hp_acc py_result" where
  "hugepage_accounting listing =
     (case listing of
        None \<Rightarrow> Inl OSError
      | Some ds \<Rightarrow> hp_subdirs_loop (length ds) hp_zero ds)"

section \<open>One node and the whole scan\<close>

text \<open>Lines 492--493: the memory the vswitch pages take, 0 when none are set.\<close>

definition vswitch_reserved_kb :: "mem_attr \<Rightarrow> int" where
  "vswitch_reserved_kb a =
     dict_get 0 (vswitch_hugepages_size_mib a) * dict_get 0 (vswitch_hugepages_nr a) * SIZE_KB"

text \<open>
  Lines 318--525 for one node. The initial report (lines 505--515) scales
  the possible 2 MiB pages by the float \<^verbatim>\<open>0.9\<close>, modelled as the exact
  rational \<open>9/10\<close>.
\<close>

definition hugepage_node :: "host \<Rightarrow> bool \<Rightarrow> nat \<Rightarrow> mem_attr py_result" where
  "hugepage_node h initial_report node =
     py_bind (hugepage_accounting (hugepage_subdirs (node_dir h node))) (\<lambda>hp.
     py_bind (node_meminfo (node_meminfo_lines (node_dir h node)) (overcommit_memory h)) (\<lambda>mi.
     py_bind (pss_mb node (pss_output h)) (\<lambda>pss.
     py_bind (base_mem_mb node (compute_reserved_conf h)) (\<lambda>base.
       let node_total_kb = total_hp_mb hp * SIZE_KB + free_kb mi + pss * SIZE_KB;
           base = clip_base_mem node (nodetype h) (total_kb mi) base;
           eng_kb = node_total_kb - base * SIZE_KB;
           vswitch_mem_kb = vswitch_reserved_kb (attr hp);
           vm_kb = eng_kb - vswitch_mem_kb;
           max_2m = vm_kb div SIZE_2M_KB;
           max_1g = vm_kb div SIZE_1G_KB;
           a = (attr hp)\<lparr>vm_hugepages_possible_2M := Some max_2m,
                         vm_hugepages_possible_1G := Some max_1g\<rparr>;
           m = of_int max_2m * (9 / 10 :: rat);
           total = (if initial_report then total_hp_mb hp + py_trunc (m * of_int (SIZE_2M_KB div SIZE_KB))
                    else total_hp_mb hp);
           free = (if initial_report then total else free_hp_mb hp);
           a = (if initial_report
                then a\<lparr>vm_hugepages_nr_2M := Some (PyFloat m), vm_hugepages_avail_2M := Some (PyFloat m),
                       vm_hugepages_nr_1G := Some (PyInt 0)\<rparr>
                else a)
       in Inr (a\<lparr>numa_node := Some node, memtotal_mib := Some total, memavail_mib := Some free,
                 hugepages_configured := Some ''True'', node_memtotal_mib := Some (node_total_kb div 1024)\<rparr>)))))"

text \<open>
  Lines 301--527: nothing is reported between the initial configuration and
  the end of the volatile configuration; otherwise one entry per node, in
  order.
\<close>

definition inode_get_memory_hugepages :: "host \<Rightarrow> nat \<Rightarrow> mem_attr list py_result" where
  "inode_get_memory_hugepages h num_nodes =
     (let initial_done = initial_compute_config_complete h;
          initial_report = \<not> initial_done;
          compute_done = volatile_compute_config_complete h
      in if initial_done \<and> \<not> compute_done then Inr []
         else py_map (hugepage_node h initial_report) [0..<num_nodes])"

section \<open>Abstract view of the accounting\<close>

text \<open>
  A directory is readable when its name has a size part and every file of
  it opens and parses; the loop then never leaves early, and one
  directory's effect is a pure function of the accumulator.
\<close>

definition hp_dir_size :: "hugepage_dir \<Rightarrow> int" where
  "hp_dir_size d = projr (hp_size_mb (hp_dirname d))"

definition hp_dir_counts :: "hugepage_dir \<Rightarrow> int \<times> int" where
  "hp_dir_counts d = projr (hp_dir_files d)"

definition hp_dir_ok :: "hugepage_dir \<Rightarrow> bool" where
  "hp_dir_ok d \<longleftrightarrow> \<not> isl (hp_size_mb (hp_dirname d)) \<and> \<not> isl (hp_dir_files d)"

definition hp_dir_1G :: "hugepage_dir \<Rightarrow> bool" where
  "hp_dir_1G d \<longleftrightarrow> hp_dir_size d = SIZE_1G_MB"

definition hp_step :: "nat \<Rightarrow> hp_acc \<Rightarrow> hugepage_dir \<Rightarrow> hp_acc" where
  "hp_step n acc d =
     \<lparr>total_hp_mb = total_hp_mb acc + fst (hp_dir_counts d) * hp_dir_size d,
      free_hp_mb = free_hp_mb acc + snd (hp_dir_counts d) * hp_dir_size d,
      attr = hp_attr_update n (hp_dir_size d) (fst (hp_dir_counts d)) (snd (hp_dir_counts d)) (attr acc)\<rparr>"

text \<open>The vswitch pages of a node: none, one 1 GiB page, or 512 pages of 2 MiB.\<close>

definition vswitch_ok :: "mem_attr \<Rightarrow> bool" where
  "vswitch_ok a \<longleftrightarrow>
     (vswitch_hugepages_size_mib a, vswitch_hugepages_nr a)
       \<in> {(None, None), (Some SIZE_1G_MB, Some 1), (Some SIZE_2M_MB, Some 512)}"

section \<open>Example hosts\<close>

text \<open>
  A size directory as the kernel shows it, and the host of the design
  document's example: one NUMA node with 1100 pages of 2 MiB.
\<close>

definition hp_dir_example :: "string \<Rightarrow> string \<Rightarrow> string \<Rightarrow> hugepage_dir" where
  "hp_dir_example name nr fr =
     \<lparr>hp_dirname = name,
      hp_files = Some [(''free_hugepages'', Some (fr @ [CHR 0x0A])), (''nr_hugepages'', Some (nr @ [CHR 0x0A])),
                       (''surplus_hugepages'', Some (''0'' @ [CHR 0x0A]))]\<rparr>"

definition host_2M_example :: host where
  "host_2M_example =
     \<lparr>cpuinfo = None,
      numa_dirs = [(0, \<lparr>hugepage_subdirs = Some [hp_dir_example ''hugepages-2048kB'' ''1100'' ''1100''],
                        node_meminfo_lines = Some [''Node 0 MemTotal:  16000000 kB'',
                                                   ''Node 0 MemFree:    8000000 kB'']\<rparr>)],
      overcommit_memory = CmdOutput (''0'' @ [CHR 0x0A]), pss_output = CmdOutput ''1500'',
      compute_reserved_conf = ConfLines [render_reserved_conf [(0, 8000, 1)]],
      initial_compute_config_complete = True, volatile_compute_config_complete = True,
      nodetype = ''compute''\<rparr>"

section \<open>Lemmas on the accounting\<close>

lemma hp_size_mb_cases: "hp_size_mb s = Inr sz \<Longrightarrow> sz = SIZE_1G_MB \<or> sz = SIZE_2M_MB"
  by (auto simp: hp_size_mb_def split: if_splits)

lemma hp_dir_size_cases: "hp_dir_ok d \<Longrightarrow> hp_dir_size d = SIZE_1G_MB \<or> hp_dir_size d = SIZE_2M_MB"
  unfolding hp_dir_ok_def hp_dir_size_def
  by (cases "hp_size_mb (hp_dirname d)") (auto dest: hp_size_mb_cases)

lemma hp_subdir_step_ok:
  assumes "hp_dir_ok d"
  shows "hp_subdir_step n acc d = Inr (hp_step n acc d)"
proof -
  obtain sz where sz: "hp_size_mb (hp_dirname d) = Inr sz"
    using assms unfolding hp_dir_ok_def by (cases "hp_size_mb (hp_dirname d)") auto
  obtain nr fr where c: "hp_dir_files d = Inr (nr, fr)"
    using assms unfolding hp_dir_ok_def by (cases "hp_dir_files d") auto
  show ?thesis
    by (simp add: hp_subdir_step_def hp_step_def hp_dir_size_def hp_dir_counts_def sz c)
qed

lemma hp_subdirs_loop_ok:
  "list_all hp_dir_ok ds \<Longrightarrow> hp_subdirs_loop n acc ds = Inr (foldl (hp_step n) acc ds)"
  by (induction ds arbitrary: acc) (simp_all add: hp_subdir_step_ok)

lemma hp_step_totals:
  "total_hp_mb (foldl (hp_step n) acc ds) =
     total_hp_mb acc + (\<Sum>d\<leftarrow>ds. fst (hp_dir_counts d) * hp_dir_size d) \<and>
   free_hp_mb (foldl (hp_step n) acc ds) =
     free_hp_mb acc + (\<Sum>d\<leftarrow>ds. snd (hp_dir_counts d) * hp_dir_size d)"
  by (induction ds arbitrary: acc) (simp_all add: hp_step_def algebra_simps)

lemma hp_attr_update_vswitch_ok:
  "sz = SIZE_1G_MB \<or> sz = SIZE_2M_MB \<Longrightarrow> vswitch_ok a \<Longrightarrow> vswitch_ok (hp_attr_update n sz nr fr a)"
  by (auto simp: hp_attr_update_def vswitch_ok_def size_constants Let_def)

lemma hp_subdirs_loop_vswitch_ok:
  "hp_subdirs_loop n acc ds = Inr acc' \<Longrightarrow> vswitch_ok (attr acc) \<Longrightarrow> vswitch_ok (attr acc')"
proof (induction ds arbitrary: acc)
  case (Cons d ds)
  show ?case
  proof (cases "hp_subdir_step n acc d")
    case (Inl e)
    then show ?thesis using Cons.prems by (cases e) auto
  next
    case (Inr acc1)
    then obtain sz nr fr where "hp_size_mb (hp_dirname d) = Inr sz"
      and "attr acc1 = hp_attr_update n sz nr fr (attr acc)"
      by (auto simp: hp_subdir_step_def split: prod.splits)
    then have "vswitch_ok (attr acc1)"
      using Cons.prems(2) by (simp add: hp_attr_update_vswitch_ok hp_size_mb_cases)
    then show ?thesis using Cons Inr by simp
  qed
qed simp

lemma hugepage_accounting_vswitch_ok:
  "hugepage_accounting l = Inr hp \<Longrightarrow> vswitch_ok (attr hp)"
  by (auto simp: hugepage_accounting_def hp_zero_def empty_attr_def vswitch_ok_def
           split: option.splits dest!: hp_subdirs_loop_vswitch_ok)

lemma hugepage_accounting_ok:
  "list_all hp_dir_ok ds \<Longrightarrow> hugepage_accounting (Some ds) = Inr (foldl (hp_step (length ds)) hp_zero ds)"
  by (simp add: hugepage_accounting_def hp_subdirs_loop_ok)

lemma hp_step_vswitch_many:
  assumes "n \<noteq> 1" and "list_all hp_dir_ok ds"
  shows "(vswitch_hugepages_size_mib (attr (foldl (hp_step n) acc ds)),
          vswitch_hugepages_nr (attr (foldl (hp_step n) acc ds))) =
         (if list_ex hp_dir_1G ds then (Some SIZE_1G_MB, Some 1)
          else (vswitch_hugepages_size_mib (attr acc), vswitch_hugepages_nr (attr acc)))"
  using assms(2)
proof (induction ds arbitrary: acc)
  case (Cons d ds)
  then show ?case
    using assms(1)
    by (auto simp: hp_step_def hp_attr_update_def hp_dir_1G_def Let_def size_constants)
qed simp

lemma hp_step_single_2M:
  "hp_dir_size d = SIZE_2M_MB \<Longrightarrow>
   attr (hp_step (Suc 0) hp_zero d) =
     empty_attr\<lparr>vswitch_hugepages_size_mib := Some SIZE_2M_MB, vswitch_hugepages_nr := Some 512,
       vswitch_hugepages_avail := Some 0, vm_hugepages_use_1G := Some ''False'',
       vm_hugepages_avail_2M := Some (PyInt (snd (hp_dir_counts d))),
       vm_hugepages_nr_2M := Some (PyInt (fst (hp_dir_counts d) - 512))\<rparr>"
  by (simp add: hp_step_def hp_attr_update_def hp_zero_def Let_def size_constants)

lemma hugepage_node_host_markers:
  "hugepage_node (h\<lparr>initial_compute_config_complete := b\<rparr>) ir node = hugepage_node h ir node"
  by (simp add: hugepage_node_def node_dir_def)

lemma hugepage_node_isl: "isl (hugepage_node h True node) = isl (hugepage_node h False node)"
  by (simp add: hugepage_node_def Let_def py_bind_def split: sum.splits)

lemma hugepage_node_fields:
  assumes "hugepage_node h ir node = Inr a"
  obtains hp where "hugepage_accounting (hugepage_subdirs (node_dir h node)) = Inr hp"
    and "vswitch_hugepages_size_mib a = vswitch_hugepages_size_mib (attr hp)"
    and "vswitch_hugepages_nr a = vswitch_hugepages_nr (attr hp)"
    and "numa_node a = Some node"
    and "hugepages_configured a = Some ''True''"
    and "\<not> ir \<Longrightarrow> memtotal_mib a = Some (total_hp_mb hp) \<and> memavail_mib a = Some (free_hp_mb hp)"
    and "ir \<Longrightarrow> vm_hugepages_nr_1G a = Some (PyInt 0) \<and> memtotal_mib a = memavail_mib a \<and>
           vm_hugepages_nr_2M a = map_option (\<lambda>p. PyFloat (of_int p * 9 / 10)) (vm_hugepages_possible_2M a) \<and>
           vm_hugepages_avail_2M a = vm_hugepages_nr_2M a"
  using assms unfolding hugepage_node_def Let_def
  by (auto split: if_splits)

lemma vswitch_ok_reserved: "vswitch_ok a \<Longrightarrow> vswitch_reserved_kb a \<in> {0, VSWITCH_MEMORY_MB * SIZE_KB}"
  by (auto simp: vswitch_ok_def vswitch_reserved_kb_def dict_get_def size_constants)

lemma inode_get_memory_hugepages_cases:
  assumes "inode_get_memory_hugepages h n = Inr ms"
  shows "if initial_compute_config_complete h \<and> \<not> volatile_compute_config_complete h then ms = []
         else py_map (hugepage_node h (\<not> initial_compute_config_complete h)) [0..<n] = Inr ms"
  using assms by (auto simp: inode_get_memory_hugepages_def Let_def)

lemma inode_get_memory_hugepages_each:
  assumes "inode_get_memory_hugepages h n = Inr ms" and "a \<in> set ms"
  obtains node where "node < n" and "hugepage_node h (\<not> initial_compute_config_complete h) node = Inr a"
  using inode_get_memory_hugepages_cases [OF assms(1)] assms(2)
  by (auto split: if_splits dest: py_map_Inr_set)

text \<open>
  Claim C2. Every node the scan reports carries a well-formed vswitch reservation: no
  vswitch pages, one page of 1 GiB, or 512 pages of 2 MiB; so the memory the
  capacity computation sets aside for the vswitch is 0 or exactly 1024 MiB.
\<close>

theorem inode_get_memory_hugepages_vswitch:
  "inode_get_memory_hugepages h n = Inr ms \<Longrightarrow>
   list_all (\<lambda>a. vswitch_ok a \<and> vswitch_reserved_kb a \<in> {0, VSWITCH_MEMORY_MB * SIZE_KB}) ms"
proof (unfold list_all_iff, intro ballI)
  fix a assume ms: "inode_get_memory_hugepages h n = Inr ms" and a: "a \<in> set ms"
  obtain node where "hugepage_node h (\<not> initial_compute_config_complete h) node = Inr a"
    using inode_get_memory_hugepages_each [OF ms a] by blast
  then obtain hp where "hugepage_accounting (hugepage_subdirs (node_dir h node)) = Inr hp"
    and "vswitch_hugepages_size_mib a = vswitch_hugepages_size_mib (attr hp)"
    and "vswitch_hugepages_nr a = vswitch_hugepages_nr (attr hp)"
    by (rule hugepage_node_fields)
  then have "vswitch_ok a"
    using hugepage_accounting_vswitch_ok by (simp add: vswitch_ok_def)
  then show "vswitch_ok a \<and> vswitch_reserved_kb a \<in> {0, VSWITCH_MEMORY_MB * SIZE_KB}"
    using vswitch_ok_reserved by blast
qed

lemma hugepage_report_nodes:
  "inode_get_memory_hugepages h n = Inr ms \<Longrightarrow>
   map numa_node ms =
     (if initial_compute_config_complete h \<and> \<not> volatile_compute_config_complete h then []
      else map Some [0..<n])"
  by (drule inode_get_memory_hugepages_cases)
     (auto split: if_splits elim: py_map_map_eq hugepage_node_fields)

text \<open>
  Claim C8. The scan reports nothing in the window between the initial and the volatile
  configuration markers, and otherwise one entry per NUMA node, for nodes
  0, 1, ... in order.
\<close>

theorem inode_get_memory_hugepages_nodes:
  "inode_get_memory_hugepages h n = Inr ms \<Longrightarrow>
   map numa_node ms =
     (if initial_compute_config_complete h \<and> \<not> volatile_compute_config_complete h then []
      else map Some [0..<n])"
  by (rule hugepage_report_nodes)

text \<open>
  Claim C9. In the initial report (no initial-configuration marker) every node reports
  no 1 GiB VM pages, 90\% of its possible 2 MiB pages as both configured and
  available, and equal total and available memory.
\<close>

theorem inode_get_memory_hugepages_initial:
  "\<not> initial_compute_config_complete h \<Longrightarrow> inode_get_memory_hugepages h n = Inr ms \<Longrightarrow>
   list_all (\<lambda>a. vm_hugepages_nr_1G a = Some (PyInt 0) \<and> memtotal_mib a = memavail_mib a \<and>
      vm_hugepages_nr_2M a = map_option (\<lambda>p. PyFloat (of_int p * 9 / 10)) (vm_hugepages_possible_2M a) \<and>
      vm_hugepages_avail_2M a = vm_hugepages_nr_2M a) ms"
  by (auto simp: list_all_iff elim!: inode_get_memory_hugepages_each hugepage_node_fields)

text \<open>
  Claim C19. A missing node directory is not skipped: when node 0 has no directory the
  scan raises OSError (the except IOError of Python 2 does not catch it),
  where the design document says missing sources are skipped silently.
\<close>

theorem inode_get_memory_hugepages_missing_node:
  "map_of (numa_dirs h) 0 = None \<Longrightarrow> 0 < n \<Longrightarrow>
   \<not> (initial_compute_config_complete h \<and> \<not> volatile_compute_config_complete h) \<Longrightarrow>
   inode_get_memory_hugepages h n = Inl OSError"
proof -
  assume "map_of (numa_dirs h) 0 = None" "0 < n"
    "\<not> (initial_compute_config_complete h \<and> \<not> volatile_compute_config_complete h)"
  moreover have "[0..<n] = 0 # [1..<n]" using \<open>0 < n\<close> by (simp add: upt_rec)
  ultimately show ?thesis
    by (simp add: inode_get_memory_hugepages_def Let_def hugepage_node_def node_dir_def
             missing_node_def dict_get_def hugepage_accounting_def del: upt_Suc)
qed

text \<open>
  Claim C15. A node whose only hugepage size is 2 MiB carves the vswitch reservation
  from it: 512 vswitch pages, the VM count is the configured count minus 512,
  and 1 GiB pages are marked unused.
\<close>

theorem hugepage_accounting_2M_only:
  assumes "hp_dir_ok d" and "hp_dir_size d = SIZE_2M_MB"
  shows "map_sum id attr (hugepage_accounting (Some [d])) =
     Inr (empty_attr\<lparr>vswitch_hugepages_size_mib := Some SIZE_2M_MB, vswitch_hugepages_nr := Some 512,
       vswitch_hugepages_avail := Some 0, vm_hugepages_use_1G := Some ''False'',
       vm_hugepages_avail_2M := Some (PyInt (snd (hp_dir_counts d))),
       vm_hugepages_nr_2M := Some (PyInt (fst (hp_dir_counts d) - 512))\<rparr>)"
  using assms by (simp add: hugepage_accounting_ok hp_step_single_2M)

theorem hugepage_accounting_2M_only_witness:
  "map_sum id (\<lambda>hp. vm_hugepages_nr_2M (attr hp))
     (hugepage_accounting (Some [hp_dir_example ''hugepages-2048kB'' ''1100'' ''1100''])) = Inr (Some (PyInt 588))"
proof -
  have ok: "hp_dir_ok (hp_dir_example ''hugepages-2048kB'' ''1100'' ''1100'')"
    and sz: "hp_dir_size (hp_dir_example ''hugepages-2048kB'' ''1100'' ''1100'') = SIZE_2M_MB"
    and c: "hp_dir_counts (hp_dir_example ''hugepages-2048kB'' ''1100'' ''1100'') = (1100, 1100)"
    by code_simp+
  show ?thesis
    using hugepage_accounting_2M_only [OF ok sz] unfolding c
    by (cases "hugepage_accounting (Some [hp_dir_example ''hugepages-2048kB'' ''1100'' ''1100''])") simp_all
qed

text \<open>
  Claim C4. When every size directory is readable the vswitch pages come from the 1 GiB
  pool as soon as one exists, from the 2 MiB pool only when it is the node's
  only size, and otherwise none are reserved.
\<close>

theorem hugepage_accounting_vswitch:
  assumes "list_all hp_dir_ok ds"
  shows "map_sum id (\<lambda>hp. (vswitch_hugepages_size_mib (attr hp), vswitch_hugepages_nr (attr hp)))
           (hugepage_accounting (Some ds)) =
         Inr (if list_ex hp_dir_1G ds then (Some SIZE_1G_MB, Some 1)
              else if length ds = 1 then (Some SIZE_2M_MB, Some 512) else (None, None))"
proof (cases "length ds = 1")
  case True
  then obtain d where ds: "ds = [d]" by (cases ds) auto
  then show ?thesis
    using assms hp_dir_size_cases [of d]
    by (auto simp: hugepage_accounting_ok hp_step_def hp_attr_update_def hp_dir_1G_def hp_zero_def
                   Let_def size_constants)
next
  case False
  then show ?thesis
    using assms hp_step_vswitch_many [of "length ds" ds hp_zero]
    by (simp add: hugepage_accounting_ok hp_zero_def empty_attr_def)
qed

text \<open>
  Claim C14. When every size directory is readable the node's hugepage memory is the sum
  over the directories of the page count times the page size, for the
  configured and for the free pages.
\<close>

theorem hugepage_accounting_totals:
  "list_all hp_dir_ok ds \<Longrightarrow>
   map_sum id (\<lambda>hp. (total_hp_mb hp, free_hp_mb hp)) (hugepage_accounting (Some ds)) =
     Inr (\<Sum>d\<leftarrow>ds. fst (hp_dir_counts d) * hp_dir_size d, \<Sum>d\<leftarrow>ds. snd (hp_dir_counts d) * hp_dir_size d)"
  by (simp add: hugepage_accounting_ok hp_step_totals hp_zero_def)

theorem inode_get_memory_hugepages_vswitch_witness:
  "\<exists>ms. inode_get_memory_hugepages host_2M_example 1 = Inr ms \<and> length ms = 1 \<and>
     list_all (\<lambda>a. vswitch_ok a \<and> vswitch_reserved_kb a \<in> {0, VSWITCH_MEMORY_MB * SIZE_KB}) ms"
proof -
  have "map_sum id length (inode_get_memory_hugepages host_2M_example 1) = Inr 1"
    by code_simp
  then obtain ms where "inode_get_memory_hugepages host_2M_example 1 = Inr ms" "length ms = 1"
    by (auto dest: map_sum_Inr_ex)
  then show ?thesis
    using inode_get_memory_hugepages_vswitch [of host_2M_example 1 ms] by blast
qed

theorem inode_get_memory_hugepages_nodes_witness:
  "\<exists>ms. inode_get_memory_hugepages host_2M_example 1 = Inr ms \<and> map numa_node ms = [Some 0]"
proof -
  have "map_sum id length (inode_get_memory_hugepages host_2M_example 1) = Inr 1"
    by code_simp
  then obtain ms where ms: "inode_get_memory_hugepages host_2M_example 1 = Inr ms"
    by (auto dest: map_sum_Inr_ex)
  moreover have "initial_compute_config_complete host_2M_example \<and> volatile_compute_config_complete host_2M_example"
    by (simp add: host_2M_example_def)
  ultimately show ?thesis
    using inode_get_memory_hugepages_nodes [OF ms] by simp
qed

theorem inode_get_memory_hugepages_initial_witness:
  "\<exists>ms. inode_get_memory_hugepages (host_2M_example\<lparr>initial_compute_config_complete := False\<rparr>) 1 = Inr ms \<and>
     length ms = 1 \<and>
     list_all (\<lambda>a. vm_hugepages_nr_1G a = Some (PyInt 0) \<and> memtotal_mib a = memavail_mib a \<and>
      vm_hugepages_nr_2M a = map_option (\<lambda>p. PyFloat (of_int p * 9 / 10)) (vm_hugepages_possible_2M a) \<and>
      vm_hugepages_avail_2M a = vm_hugepages_nr_2M a) ms"
proof -
  have "map_sum id length (inode_get_memory_hugepages host_2M_example 1) = Inr 1"
    by code_simp
  then have "\<not> isl (hugepage_node host_2M_example False 0)"
    by (auto simp: inode_get_memory_hugepages_def host_2M_example_def Let_def
             dest!: map_sum_Inr_ex split: sum.splits)
  then have "\<not> isl (hugepage_node host_2M_example True 0)"
    using hugepage_node_isl [of host_2M_example 0] by simp
  then obtain a where "hugepage_node host_2M_example True 0 = Inr a"
    by (cases "hugepage_node host_2M_example True 0") auto
  then have ms: "inode_get_memory_hugepages (host_2M_example\<lparr>initial_compute_config_complete := False\<rparr>) 1 = Inr [a]"
    by (simp add: inode_get_memory_hugepages_def hugepage_node_host_markers)
  show ?thesis
    using inode_get_memory_hugepages_initial [OF _ ms] ms by simp
qed

theorem inode_get_memory_hugepages_missing_node_witness:
  "inode_get_memory_hugepages (host_2M_example\<lparr>numa_dirs := []\<rparr>) 1 = Inl OSError"
  by (rule inode_get_memory_hugepages_missing_node) (simp_all add: host_2M_example_def)

theorem hugepage_accounting_vswitch_witness:
  "map_sum id (\<lambda>hp. (vswitch_hugepages_size_mib (attr hp), vswitch_hugepages_nr (attr hp)))
     (hugepage_accounting (Some [hp_dir_example ''hugepages-2048kB'' ''1100'' ''1000'',
                                 hp_dir_example ''hugepages-1048576kB'' ''4'' ''2''])) =
   Inr (Some 1024, Some 1)"
proof -
  have "list_all hp_dir_ok [hp_dir_example ''hugepages-2048kB'' ''1100'' ''1000'',
                            hp_dir_example ''hugepages-1048576kB'' ''4'' ''2'']"
    and "list_ex hp_dir_1G [hp_dir_example ''hugepages-2048kB'' ''1100'' ''1000'',
                            hp_dir_example ''hugepages-1048576kB'' ''4'' ''2'']"
    by code_simp+
  then show ?thesis
    using hugepage_accounting_vswitch by (simp add: size_constants)
qed

theorem hugepage_accounting_totals_witness:
  "map_sum id (\<lambda>hp. (total_hp_mb hp, free_hp_mb hp))
     (hugepage_accounting (Some [hp_dir_example ''hugepages-2048kB'' ''1100'' ''1000'',
                                 hp_dir_example ''hugepages-1048576kB'' ''4'' ''2''])) =
   Inr (6296, 4048)"
proof -
  have "list_all hp_dir_ok [hp_dir_example ''hugepages-2048kB'' ''1100'' ''1000'',
                            hp_dir_example ''hugepages-1048576kB'' ''4'' ''2'']"
    and "(\<Sum>d\<leftarrow>[hp_dir_example ''hugepages-2048kB'' ''1100'' ''1000'',
                hp_dir_example ''hugepages-1048576kB'' ''4'' ''2'']. fst (hp_dir_counts d) * hp_dir_size d) = 6296"
    and "(\<Sum>d\<leftarrow>[hp_dir_example ''hugepages-2048kB'' ''1100'' ''1000'',
                hp_dir_example ''hugepages-1048576kB'' ''4'' ''2'']. snd (hp_dir_counts d) * hp_dir_size d) = 4048"
    by code_simp+
  then show ?thesis
    using hugepage_accounting_totals by simp
qed

end
