(* ===== verification/CpuTopology.thy ===== *)
theory CpuTopology
  imports Prelude
begin

text \<open>
  The CPU topology scanner \<^verbatim>\<open>NodeOperator.inodes_get_inumas_icpus\<close>
  (\<^verbatim>\<open>inventory/agent/node.py\<close>, lines 138--288) and the value class
  \<^verbatim>\<open>CPU\<close> (lines 54--87). The operator's attributes are the record
  \<open>node_operator\<close>; the scan runs on that record extended with the method's
  local variables (\<open>cpuinfo_scan\<close>), one step \<open>scan_line\<close> per line of
  \<^verbatim>\<open>/proc/cpuinfo\<close>, and ends with the synthetic topology of lines
  236--284 when no \<^verbatim>\<open>core id\<close> line was seen.
\<close>

section \<open>Data\<close>

text \<open>\<^verbatim>\<open>self.topology[socket_id][core_id][thread_id] = cpu\<close>.\<close>

type_synonym topology = "(int \<times> (int \<times> (int \<times> int) list) list) list"

type_synonym thread_counts = "(int \<times> (int \<times> nat) list) list"

text \<open>The attributes of \<^verbatim>\<open>NodeOperator.__init__\<close> (lines 93--102).\<close>

record node_operator =
  num_cpus :: nat
  num_nodes :: nat
  float_cpuset :: int
  total_memory_mb :: int
  free_memory_mb :: int
  total_memory_nodes_mb :: "int list"
  free_memory_nodes_mb :: "int list"
  topology :: topology

definition init_node_operator :: node_operator where
  "init_node_operator =
     \<lparr>num_cpus = 0, num_nodes = 0, float_cpuset = 0, total_memory_mb = 0,
      free_memory_mb = 0, total_memory_nodes_mb = [], free_memory_nodes_mb = [],
      topology = []\<rparr>"

text \<open>
  A NUMA node entry \<^verbatim>\<open>{'numa_node': s, 'capabilities': {}}\<close> and a logical
  CPU entry of \<^verbatim>\<open>icpus\<close>; their \<^verbatim>\<open>capabilities\<close> are always empty and
  are left out.
\<close>

record inuma =
  inuma_numa_node :: int

record icpu =
  icpu_cpu :: int
  icpu_numa_node :: int
  icpu_core :: int
  icpu_thread :: int
  icpu_cpu_family :: "string option"
  icpu_cpu_model :: "string option"

text \<open>\<^verbatim>\<open>icpu_attrs\<close>: the attributes collected for the CPU being read.\<close>

record icpu_attrs =
  attr_cpu_family :: "string option"
  attr_cpu_model :: "string option"

definition no_attrs :: icpu_attrs where
  "no_attrs = \<lparr>attr_cpu_family = None, attr_cpu_model = None\<rparr>"

text \<open>The operator during the scan, with the local variables of the method.\<close>

record cpuinfo_scan = node_operator +
  cpu :: int
  socket_id :: int
  core_id :: int
  thread_id :: int
  thread_cnt :: thread_counts
  sockets :: "int list"
  inumas :: "inuma list"
  icpus :: "icpu list"
  cur_attrs :: icpu_attrs

section \<open>Line patterns\<close>

text \<open>The five patterns of lines 155--159.\<close>

definition re_processor :: "string \<Rightarrow> string option" where
  "re_processor = re_key_colon_group (AnyOf ''Pp'' # re_lit ''rocessor'') py_isdigit"

definition re_socket :: "string \<Rightarrow> string option" where
  "re_socket = re_key_colon_group (re_lit ''physical id'') py_isdigit"

definition re_core :: "string \<Rightarrow> string option" where
  "re_core = re_key_colon_group (re_lit ''core id'') py_isdigit"

definition re_cpu_family :: "string \<Rightarrow> string option" where
  "re_cpu_family = re_key_colon_group (re_lit ''cpu family'') py_isdigit"

definition re_cpu_model :: "string \<Rightarrow> string option" where
  "re_cpu_model = re_key_colon_group (re_lit ''model name'') py_isword"

text \<open>\<^verbatim>\<open>name, value = [s.strip() for s in line.split(':', 1)]\<close>: the value.\<close>

definition colon_value :: "string \<Rightarrow> string" where
  "colon_value line = py_strip (drop 1 (dropWhile (\<lambda>c. c \<noteq> CHR '':'') line))"

section \<open>Steps of the scan\<close>

text \<open>Lines 195--201 (and their copies 242--248, 267--273).\<close>

definition add_socket :: "int \<Rightarrow> 'a cpuinfo_scan_scheme \<Rightarrow> 'a cpuinfo_scan_scheme" where
  "add_socket s st =
     (if s \<notin> set (sockets st)
      then st\<lparr>sockets := sockets st @ [s], inumas := inumas st @ [\<lparr>inuma_numa_node = s\<rparr>]\<rparr>
      else st)"

text \<open>Lines 208--214: the per-(socket, core) thread counter.\<close>

definition count_thread :: "thread_counts \<Rightarrow> int \<Rightarrow> int \<Rightarrow> thread_counts \<times> nat" where
  "count_thread tc s c =
     (let inner = dget tc s in
      case map_of inner c of
        None \<Rightarrow> (AList.update s (AList.update c 0 inner) tc, 0)
      | Some n \<Rightarrow> (AList.update s (AList.update c (Suc n) inner) tc, Suc n))"

text \<open>Lines 216--221: an entry of the topology, with its levels created on demand.\<close>

definition topo_set :: "topology \<Rightarrow> int \<Rightarrow> int \<Rightarrow> int \<Rightarrow> int \<Rightarrow> topology" where
  "topo_set tp s c t v =
     (let cores = dget tp s in AList.update s (AList.update c (AList.update t v (dget cores c)) cores) tp)"

definition cpu_record :: "int \<Rightarrow> int \<Rightarrow> int \<Rightarrow> int \<Rightarrow> icpu_attrs \<Rightarrow> icpu" where
  "cpu_record v s c t a =
     \<lparr>icpu_cpu = v, icpu_numa_node = s, icpu_core = c, icpu_thread = t,
      icpu_cpu_family = attr_cpu_family a, icpu_cpu_model = attr_cpu_model a\<rparr>"

text \<open>A \<^verbatim>\<open>core id\<close> line (lines 204--232).\<close>

definition core_step :: "int \<Rightarrow> 'a cpuinfo_scan_scheme \<Rightarrow> 'a cpuinfo_scan_scheme" where
  "core_step c st =
     (let (tc, n) = count_thread (thread_cnt st) (socket_id st) c; t = int n in
      st\<lparr>core_id := c, thread_cnt := tc, thread_id := t,
         topology := topo_set (topology st) (socket_id st) c t (cpu st),
         icpus := icpus st @ [cpu_record (cpu st) (socket_id st) c t (cur_attrs st)],
         cur_attrs := no_attrs\<rparr>)"

text \<open>One line of \<^verbatim>\<open>/proc/cpuinfo\<close> (lines 168--232), patterns tried in order.\<close>

definition scan_line :: "'a cpuinfo_scan_scheme \<Rightarrow> string \<Rightarrow> 'a cpuinfo_scan_scheme" where
  "scan_line st line =
     (case re_processor line of
        Some g \<Rightarrow> st\<lparr>cpu := int (digits_val g), socket_id := -1, core_id := -1, thread_id := -1,
                    num_cpus := Suc (num_cpus st)\<rparr>
      | None \<Rightarrow>
     (case re_cpu_family line of
        Some _ \<Rightarrow> st\<lparr>cur_attrs := (cur_attrs st)\<lparr>attr_cpu_family := Some (colon_value line)\<rparr>\<rparr>
      | None \<Rightarrow>
     (case re_cpu_model line of
        Some _ \<Rightarrow> st\<lparr>cur_attrs := (cur_attrs st)\<lparr>attr_cpu_model := Some (colon_value line)\<rparr>\<rparr>
      | None \<Rightarrow>
     (case re_socket line of
        Some g \<Rightarrow> add_socket (int (digits_val g)) (st\<lparr>socket_id := int (digits_val g)\<rparr>)
      | None \<Rightarrow>
     (case re_core line of
        Some g \<Rightarrow> core_step (int (digits_val g)) st
      | None \<Rightarrow> st)))))"

definition scan_lines :: "'a cpuinfo_scan_scheme \<Rightarrow> string list \<Rightarrow> 'a cpuinfo_scan_scheme" where
  "scan_lines st lines = foldl scan_line st lines"

section \<open>The synthetic topology\<close>

text \<open>
  Lines 238--260: one socket, one core per counted CPU and one thread each;
  every CPU entry added here carries the stale value of \<^verbatim>\<open>cpu\<close>.
\<close>

definition synth_thread :: "int \<Rightarrow> int \<Rightarrow> 'a cpuinfo_scan_scheme \<Rightarrow> int \<Rightarrow> 'a cpuinfo_scan_scheme" where
  "synth_thread s c st t =
     st\<lparr>topology := topo_set (topology st) s c t 0,
        icpus := icpus st @ [cpu_record (cpu st) s c t no_attrs]\<rparr>"

definition synth_core :: "nat \<Rightarrow> int \<Rightarrow> 'a cpuinfo_scan_scheme \<Rightarrow> int \<Rightarrow> 'a cpuinfo_scan_scheme" where
  "synth_core n_threads s st c =
     foldl (synth_thread s c)
       (st\<lparr>topology := AList.update s (AList.update c [] (dget (topology st) s)) (topology st)\<rparr>)
       (map int [0..<n_threads])"

definition synth_socket :: "nat \<Rightarrow> nat \<Rightarrow> 'a cpuinfo_scan_scheme \<Rightarrow> int \<Rightarrow> 'a cpuinfo_scan_scheme" where
  "synth_socket n_cores n_threads st s =
     foldl (synth_core n_threads s)
       (add_socket s (st\<lparr>topology := AList.update s [] (topology st)\<rparr>))
       (map int [0..<n_cores])"

text \<open>
  Lines 262--283: the thread-outer, core-middle, socket-inner enumeration that
  numbers the logical CPUs from 0.
\<close>

definition enum_step :: "int \<Rightarrow> int \<Rightarrow> 'a cpuinfo_scan_scheme \<Rightarrow> int \<Rightarrow> 'a cpuinfo_scan_scheme" where
  "enum_step t c st s =
     (let st = add_socket s st in
      st\<lparr>topology := topo_set (topology st) s c t (cpu st),
         icpus := icpus st @ [cpu_record (cpu st) s c t no_attrs],
         cpu := cpu st + 1\<rparr>)"

definition enum_cpus :: "nat \<Rightarrow> nat \<Rightarrow> nat \<Rightarrow> 'a cpuinfo_scan_scheme \<Rightarrow> 'a cpuinfo_scan_scheme" where
  "enum_cpus n_sockets n_cores n_threads st =
     foldl (\<lambda>st t. foldl (\<lambda>st c. foldl (enum_step t c) st (map int [0..<n_sockets]))
                     st (map int [0..<n_cores]))
       (st\<lparr>cpu := 0\<rparr>) (map int [0..<n_threads])"

definition synthesize_topology :: "'a cpuinfo_scan_scheme \<Rightarrow> 'a cpuinfo_scan_scheme" where
  "synthesize_topology st =
     (let n_sockets = 1; n_cores = num_cpus st; n_threads = 1;
          st = foldl (synth_socket n_cores n_threads) (st\<lparr>topology := []\<rparr>) (map int [0..<n_sockets]);
          st = enum_cpus n_sockets n_cores n_threads st
      in st\<lparr>num_nodes := length (topology st)\<rparr>)"

section \<open>The method\<close>

definition init_scan :: "node_operator \<Rightarrow> cpuinfo_scan" where
  "init_scan op =
     node_operator.extend (op\<lparr>num_cpus := 0, num_nodes := 0, topology := []\<rparr>)
       (cpuinfo_scan.fields (-1) (-1) (-1) (-1) [] [] [] [] no_attrs)"

definition finish_scan :: "cpuinfo_scan \<Rightarrow> cpuinfo_scan" where
  "finish_scan st =
     (let st = st\<lparr>num_nodes := length (topology st)\<rparr> in
      if num_nodes st = 0 then synthesize_topology st else st)"

text \<open>
  \<open>cpuinfo\<close> is the content of \<^verbatim>\<open>/proc/cpuinfo\<close> as lines, \<open>None\<close> when
  \<^verbatim>\<open>open\<close> fails (the \<^verbatim>\<open>IOError\<close> is not caught).
\<close>

definition inodes_get_inumas_icpus ::
  "string list option \<Rightarrow> node_operator \<Rightarrow> (node_operator \<times> inuma list \<times> icpu list) py_result" where
  "inodes_get_inumas_icpus cpuinfo op =
     (case cpuinfo of
        None \<Rightarrow> Inl IOError
      | Some lines \<Rightarrow>
          let st = finish_scan (scan_lines (init_scan op) lines)
          in Inr (node_operator.truncate st, inumas st, icpus st))"

subsection \<open>The CPU class\<close>

text \<open>
  \<^verbatim>\<open>CPU.__eq__\<close> and \<^verbatim>\<open>CPU.__ne__\<close> compare the id, NUMA node, core and
  thread only (lines 70--80).
\<close>

record CPU =
  CPU_cpu :: int
  CPU_numa_node :: int
  CPU_core :: int
  CPU_thread :: int
  CPU_cpu_family :: "string option"
  CPU_cpu_model :: "string option"
  CPU_revision :: "string option"

definition CPU_eq :: "CPU \<Rightarrow> CPU \<Rightarrow> bool" where
  "CPU_eq a b \<longleftrightarrow> CPU_cpu a = CPU_cpu b \<and> CPU_numa_node a = CPU_numa_node b \<and>
     CPU_core a = CPU_core b \<and> CPU_thread a = CPU_thread b"

definition CPU_ne :: "CPU \<Rightarrow> CPU \<Rightarrow> bool" where
  "CPU_ne a b \<longleftrightarrow> CPU_cpu a \<noteq> CPU_cpu b \<or> CPU_numa_node a \<noteq> CPU_numa_node b \<or>
     CPU_core a \<noteq> CPU_core b \<or> CPU_thread a \<noteq> CPU_thread b"

section \<open>Abstraction and invariant of the scan\<close>

text \<open>
  The nested dictionaries are read as maps: \<open>topo_lookup\<close> sends a
  (socket, core, thread) triple to its logical CPU, \<open>tc_lookup\<close> a
  (socket, core) pair to its counter. \<open>sibling_index xs\<close> numbers each
  element of \<open>xs\<close> by the number of equal elements before it, the numbering the
  thread counter of lines 208--214 is meant to produce.
\<close>

definition topo_lookup :: "topology \<Rightarrow> int \<times> int \<times> int \<Rightarrow> int option" where
  "topo_lookup tp = (\<lambda>(s, c, t). Option.bind (map_of tp s) (\<lambda>cs. Option.bind (map_of cs c) (\<lambda>ts. map_of ts t)))"

definition tc_lookup :: "thread_counts \<Rightarrow> int \<times> int \<Rightarrow> nat option" where
  "tc_lookup tc = (\<lambda>(s, c). Option.bind (map_of tc s) (\<lambda>cs. map_of cs c))"

lemma topo_lookup_topo_set: "topo_lookup (topo_set tp s c t v) = (topo_lookup tp)((s, c, t) \<mapsto> v)"
  by (auto simp: topo_lookup_def topo_set_def dget_def update_conv' fun_eq_iff split: option.splits)

lemma keys_topo_set: "map fst (topo_set tp s c t v) = (if s \<in> set (map fst tp) then map fst tp else map fst tp @ [s])"
  by (simp add: topo_set_def Let_def update_keys)

lemma count_thread_lookup:
  assumes "count_thread tc s c = (tc', n)"
  shows "tc_lookup tc' = (tc_lookup tc)((s, c) \<mapsto> n)"
    and "n = (case tc_lookup tc (s, c) of None \<Rightarrow> 0 | Some k \<Rightarrow> Suc k)"
  using assms
  by (auto simp: tc_lookup_def count_thread_def dget_def update_conv' fun_eq_iff Let_def
      split: option.splits)

definition sibling_index :: "'a list \<Rightarrow> nat list" where
  "sibling_index xs = map (\<lambda>i. count_list (take i xs) (xs ! i)) [0..<length xs]"

lemma sibling_index_Nil [simp]: "sibling_index [] = []"
  by (simp add: sibling_index_def)

lemma sibling_index_snoc [simp]: "sibling_index (xs @ [x]) = sibling_index xs @ [count_list xs x]"
  by (simp add: sibling_index_def nth_append)

lemma length_sibling_index [simp]: "length (sibling_index xs) = length xs"
  by (simp add: sibling_index_def)

lemma zip_sibling_index_below:
  "(y, k) \<in> set (zip xs (sibling_index xs)) \<Longrightarrow> k < count_list xs y"
proof (induction xs rule: rev_induct)
  case Nil
  then show ?case by simp
next
  case (snoc x xs)
  then show ?case by (auto simp: zip_append)
qed

lemma distinct_zip_sibling_index: "distinct (zip xs (sibling_index xs))"
proof (induction xs rule: rev_induct)
  case Nil
  then show ?case by simp
next
  case (snoc x xs)
  then show ?case by (auto simp: zip_append dest: zip_sibling_index_below)
qed

definition icpu_key :: "icpu \<Rightarrow> int \<times> int \<times> int" where
  "icpu_key r = (icpu_numa_node r, icpu_core r, icpu_thread r)"

definition icpu_pair :: "icpu \<Rightarrow> int \<times> int" where
  "icpu_pair r = (icpu_numa_node r, icpu_core r)"

definition cpuinfo_inv :: "'a cpuinfo_scan_scheme \<Rightarrow> bool" where
  "cpuinfo_inv st \<longleftrightarrow>
     tc_lookup (thread_cnt st) =
       (\<lambda>p. if p \<in> set (map icpu_pair (icpus st))
            then Some (count_list (map icpu_pair (icpus st)) p - 1) else None)
   \<and> map icpu_thread (icpus st) = map int (sibling_index (map icpu_pair (icpus st)))
   \<and> topo_lookup (topology st) = map_of (map (\<lambda>r. (icpu_key r, icpu_cpu r)) (icpus st))
   \<and> distinct (map fst (topology st))
   \<and> set (map fst (topology st)) = set (map icpu_numa_node (icpus st))"

lemma distinct_keys_topo_set: "distinct (map fst tp) \<Longrightarrow> distinct (map fst (topo_set tp s c t v))"
  by (simp add: topo_set_def Let_def distinct_update)

lemma icpu_key_zip:
  "map icpu_key xs = map (\<lambda>((s, c), t). (s, c, t)) (zip (map icpu_pair xs) (map icpu_thread xs))"
  by (induction xs) (auto simp: icpu_key_def icpu_pair_def)

lemma distinct_icpu_keys:
  assumes "map icpu_thread xs = map int (sibling_index (map icpu_pair xs))"
  shows "distinct (map icpu_key xs)"
proof -
  have "zip (map icpu_pair xs) (map icpu_thread xs) =
          map (\<lambda>(p, k). (p, int k)) (zip (map icpu_pair xs) (sibling_index (map icpu_pair xs)))"
    unfolding assms by (simp add: zip_map2)
  moreover have "inj ((\<lambda>((s::int, c::int), t::int). (s, c, t)) \<circ> (\<lambda>(p::int \<times> int, k::nat). (p, int k)))"
    by (auto simp: inj_def)
  ultimately show ?thesis
    unfolding icpu_key_zip
    by (simp add: distinct_map distinct_zip_sibling_index inj_on_subset [of _ UNIV])
qed

lemma fresh_key:
  assumes "map icpu_thread xs = map int (sibling_index (map icpu_pair xs))"
  shows "(s, c, int (count_list (map icpu_pair xs) (s, c))) \<notin> set (map icpu_key xs)"
proof
  assume "(s, c, int (count_list (map icpu_pair xs) (s, c))) \<in> set (map icpu_key xs)"
  then have "((s, c), int (count_list (map icpu_pair xs) (s, c))) \<in>
               set (zip (map icpu_pair xs) (map icpu_thread xs))"
    unfolding icpu_key_zip by auto
  then have "((s, c), count_list (map icpu_pair xs) (s, c)) \<in>
               set (zip (map icpu_pair xs) (sibling_index (map icpu_pair xs)))"
    unfolding assms by (auto simp: zip_map2)
  then show False
    using zip_sibling_index_below by fastforce
qed

lemma core_step_inv:
  assumes "cpuinfo_inv st"
  shows "cpuinfo_inv (core_step c st)"
proof -
  let ?ps = "map icpu_pair (icpus st)"
  let ?s = "socket_id st"
  obtain tc n where ct: "count_thread (thread_cnt st) ?s c = (tc, n)"
    by fastforce
  have cnt: "count_list ?ps (?s, c) \<noteq> 0 \<longleftrightarrow> (?s, c) \<in> set ?ps"
    by (simp add: count_list_0_iff)
  have n: "n = count_list ?ps (?s, c)"
    using count_thread_lookup(2) [OF ct] assms cnt
    by (cases "(?s, c) \<in> set ?ps") (auto simp: cpuinfo_inv_def)
  let ?r = "cpu_record (cpu st) ?s c (int n) (cur_attrs st)"
  have r: "icpu_pair ?r = (?s, c)" "icpu_key ?r = (?s, c, int n)" "icpu_thread ?r = int n"
    "icpu_numa_node ?r = ?s" "icpu_cpu ?r = cpu st"
    by (simp_all add: cpu_record_def icpu_pair_def icpu_key_def)
  have fresh: "(?s, c, int n) \<notin> set (map icpu_key (icpus st))"
    using n fresh_key assms by (simp add: cpuinfo_inv_def)
  then have "map_of (map (\<lambda>r. (icpu_key r, icpu_cpu r)) (icpus st)) (?s, c, int n) = None"
    by (simp add: map_of_eq_None_iff image_image)
  then have mo: "map_of (map (\<lambda>r. (icpu_key r, icpu_cpu r)) (icpus st @ [?r])) =
           (map_of (map (\<lambda>r. (icpu_key r, icpu_cpu r)) (icpus st)))((?s, c, int n) \<mapsto> cpu st)"
    using r by (auto simp: map_of_append fun_eq_iff map_add_def split: option.splits)
  have eq: "core_step c st = st\<lparr>core_id := c, thread_cnt := tc, thread_id := int n,
         topology := topo_set (topology st) ?s c (int n) (cpu st),
         icpus := icpus st @ [?r], cur_attrs := no_attrs\<rparr>"
    using ct by (simp add: core_step_def Let_def)
  have h1: "tc_lookup tc = (\<lambda>p. if p \<in> set (map icpu_pair (icpus st @ [?r]))
            then Some (count_list (map icpu_pair (icpus st @ [?r])) p - 1) else None)"
    using count_thread_lookup(1) [OF ct] assms n r
    by (auto simp: cpuinfo_inv_def fun_eq_iff count_list_0_iff)
  have h2: "map icpu_thread (icpus st @ [?r]) =
      map int (sibling_index (map icpu_pair (icpus st @ [?r])))"
    using assms r n by (simp add: cpuinfo_inv_def)
  have h3: "topo_lookup (topo_set (topology st) ?s c (int n) (cpu st)) =
      map_of (map (\<lambda>r. (icpu_key r, icpu_cpu r)) (icpus st @ [?r]))"
    using assms mo by (simp add: cpuinfo_inv_def topo_lookup_topo_set)
  have h4: "distinct (map fst (topo_set (topology st) ?s c (int n) (cpu st)))"
    using assms by (simp add: cpuinfo_inv_def distinct_keys_topo_set)
  have h5: "set (map fst (topo_set (topology st) ?s c (int n) (cpu st))) =
      set (map icpu_numa_node (icpus st @ [?r]))"
    using assms r by (auto simp: cpuinfo_inv_def keys_topo_set simp del: set_map)
  have sel: "thread_cnt (core_step c st) = tc" "icpus (core_step c st) = icpus st @ [?r]"
    "topology (core_step c st) = topo_set (topology st) ?s c (int n) (cpu st)"
    by (simp_all add: eq)
  show ?thesis
    unfolding cpuinfo_inv_def sel using h1 h2 h3 h4 h5 by blast
qed

lemma scan_line_cases:
  "(\<exists>c. scan_line st line = core_step c st) \<or>
   (thread_cnt (scan_line st line) = thread_cnt st \<and> icpus (scan_line st line) = icpus st \<and>
    topology (scan_line st line) = topology st)"
  by (auto simp: scan_line_def add_socket_def split: option.splits)

lemma cpuinfo_inv_frame:
  assumes "cpuinfo_inv st" and "thread_cnt st' = thread_cnt st" and "icpus st' = icpus st"
    and "topology st' = topology st"
  shows "cpuinfo_inv st'"
  using assms(1) unfolding cpuinfo_inv_def assms(2-4) .

lemma scan_line_keeps_inv: "cpuinfo_inv st \<Longrightarrow> cpuinfo_inv (scan_line st line)"
  using scan_line_cases [of st line] core_step_inv cpuinfo_inv_frame by metis

text \<open>
  Claim C3: every line of cpuinfo keeps the scan's invariant: the thread
  counters, the CPU records and the topology dictionary agree.
\<close>

theorem scan_line_inv: "cpuinfo_inv st \<Longrightarrow> cpuinfo_inv (scan_line st line)"
  by (rule scan_line_keeps_inv)

lemma scan_lines_inv: "cpuinfo_inv st \<Longrightarrow> cpuinfo_inv (scan_lines st lines)"
  unfolding scan_lines_def
  by (induction lines arbitrary: st) (simp_all add: scan_line_keeps_inv)

lemma init_scan_inv: "cpuinfo_inv (init_scan op)"
  by (simp add: cpuinfo_inv_def init_scan_def node_operator.defs cpuinfo_scan.defs
      tc_lookup_def topo_lookup_def fun_eq_iff)

lemma num_cpus_scan_lines:
  "num_cpus (scan_lines st lines) = num_cpus st + length (filter (\<lambda>l. re_processor l \<noteq> None) lines)"
  unfolding scan_lines_def
  by (induction lines arbitrary: st)
     (auto simp: scan_line_def add_socket_def core_step_def Let_def split: option.splits prod.splits)

text \<open>
  Claim C1: after any sequence of cpuinfo lines, the CPU records have
  pairwise distinct (socket, core, thread) triples, the nested topology
  dictionary maps exactly these triples to their CPU ids, and the thread id of
  each record is the number of earlier records on the same (socket, core).
\<close>

theorem scan_topology_exact:
  "distinct (map icpu_key (icpus (scan_lines (init_scan op) lines))) \<and>
   topo_lookup (topology (scan_lines (init_scan op) lines)) =
     map_of (map (\<lambda>r. (icpu_key r, icpu_cpu r)) (icpus (scan_lines (init_scan op) lines))) \<and>
   map icpu_thread (icpus (scan_lines (init_scan op) lines)) =
     map int (sibling_index (map icpu_pair (icpus (scan_lines (init_scan op) lines))))"
  using scan_lines_inv [OF init_scan_inv, of op lines]
  by (simp add: cpuinfo_inv_def distinct_icpu_keys)

lemma topo_lookup_reset_core:
  "topo_lookup (AList.update s (AList.update c [] (dget tp s)) tp) =
     (\<lambda>(s', c', t). if s' = s \<and> c' = c then None else topo_lookup tp (s', c', t))"
  by (auto simp: topo_lookup_def dget_def update_conv' fun_eq_iff split: option.splits)

lemma topo_lookup_reset_socket:
  "topo_lookup (AList.update s [] tp) = (\<lambda>(s', c, t). if s' = s then None else topo_lookup tp (s', c, t))"
  by (auto simp: topo_lookup_def update_conv' fun_eq_iff)

lemma keys_update_present:
  "s \<in> set (map fst al) \<Longrightarrow> map fst (AList.update s v al) = map fst al"
  by (simp add: update_keys)

lemma synth_core_1:
  "synth_core (Suc 0) s st c =
     st\<lparr>topology := topo_set (AList.update s (AList.update c [] (dget (topology st) s)) (topology st)) s c 0 0,
        icpus := icpus st @ [cpu_record (cpu st) s c 0 no_attrs]\<rparr>"
  by (simp add: synth_core_def synth_thread_def)

lemma synth_cores:
  assumes "0 \<in> set (map fst (topology st))"
  shows "icpus (foldl (synth_core 1 0) st (map int [0..<n])) =
           icpus st @ map (\<lambda>c. cpu_record (cpu st) 0 (int c) 0 no_attrs) [0..<n]
    \<and> cpu (foldl (synth_core 1 0) st (map int [0..<n])) = cpu st
    \<and> sockets (foldl (synth_core 1 0) st (map int [0..<n])) = sockets st
    \<and> inumas (foldl (synth_core 1 0) st (map int [0..<n])) = inumas st
    \<and> num_cpus (foldl (synth_core 1 0) st (map int [0..<n])) = num_cpus st
    \<and> map fst (topology (foldl (synth_core 1 0) st (map int [0..<n]))) = map fst (topology st)
    \<and> topo_lookup (topology (foldl (synth_core 1 0) st (map int [0..<n]))) =
        (\<lambda>(s, c, t). if s = 0 \<and> 0 \<le> c \<and> c < int n then (if t = 0 then Some 0 else None)
                     else topo_lookup (topology st) (s, c, t))"
proof (induction n)
  case 0
  then show ?case by (auto simp: fun_eq_iff)
next
  case (Suc n)
  then show ?case using assms
    by (auto simp: synth_core_1 topo_lookup_topo_set topo_lookup_reset_core keys_topo_set
        keys_update_present fun_eq_iff)
qed

lemma enum_step_present:
  "s \<in> set (sockets st) \<Longrightarrow> enum_step t c st s =
     st\<lparr>topology := topo_set (topology st) s c t (cpu st),
        icpus := icpus st @ [cpu_record (cpu st) s c t no_attrs], cpu := cpu st + 1\<rparr>"
  by (simp add: enum_step_def add_socket_def)

lemma enum_cores:
  assumes "0 \<in> set (sockets st)" and "0 \<in> set (map fst (topology st))"
  shows "icpus (foldl (\<lambda>st c. enum_step 0 c st 0) st (map int [0..<n])) =
           icpus st @ map (\<lambda>c. cpu_record (cpu st + int c) 0 (int c) 0 no_attrs) [0..<n]
    \<and> cpu (foldl (\<lambda>st c. enum_step 0 c st 0) st (map int [0..<n])) = cpu st + int n
    \<and> sockets (foldl (\<lambda>st c. enum_step 0 c st 0) st (map int [0..<n])) = sockets st
    \<and> num_cpus (foldl (\<lambda>st c. enum_step 0 c st 0) st (map int [0..<n])) = num_cpus st
    \<and> map fst (topology (foldl (\<lambda>st c. enum_step 0 c st 0) st (map int [0..<n]))) = map fst (topology st)
    \<and> topo_lookup (topology (foldl (\<lambda>st c. enum_step 0 c st 0) st (map int [0..<n]))) =
        (\<lambda>(s, c, t). if s = 0 \<and> 0 \<le> c \<and> c < int n \<and> t = 0 then Some (cpu st + c)
                     else topo_lookup (topology st) (s, c, t))"
proof (induction n)
  case 0
  then show ?case by (auto simp: fun_eq_iff)
next
  case (Suc n)
  then show ?case using assms
    by (auto simp: enum_step_present topo_lookup_topo_set keys_topo_set fun_eq_iff)
qed

lemma scan_line_no_core_icpus:
  "re_core line = None \<Longrightarrow> icpus (scan_line st line) = icpus st"
  by (auto simp: scan_line_def add_socket_def split: option.splits)

lemma scan_lines_no_core_icpus:
  "\<forall>l \<in> set lines. re_core l = None \<Longrightarrow> icpus (scan_lines st lines) = icpus st"
  unfolding scan_lines_def
  by (induction lines arbitrary: st) (simp_all add: scan_line_no_core_icpus)

lemma synthesize_topology_result:
  "icpus (synthesize_topology st) =
      icpus st @ map (\<lambda>c. cpu_record (cpu st) 0 (int c) 0 no_attrs) [0..<num_cpus st]
        @ map (\<lambda>c. cpu_record (int c) 0 (int c) 0 no_attrs) [0..<num_cpus st]
   \<and> num_nodes (synthesize_topology st) = 1
   \<and> num_cpus (synthesize_topology st) = num_cpus st
   \<and> topo_lookup (topology (synthesize_topology st)) =
       (\<lambda>(s, c, t). if s = 0 \<and> 0 \<le> c \<and> c < int (num_cpus st) \<and> t = 0 then Some c else None)"
proof -
  let ?n = "num_cpus st"
  define st0 where "st0 = add_socket 0 (st\<lparr>topology := [(0, [])]\<rparr>)"
  define st1 where "st1 = foldl (synth_core 1 0) st0 (map int [0..<?n])"
  define st2 where "st2 = foldl (\<lambda>st c. enum_step 0 c st 0) (st1\<lparr>cpu := 0\<rparr>) (map int [0..<?n])"
  have eq: "synthesize_topology st = st2\<lparr>num_nodes := length (topology st2)\<rparr>"
    by (simp add: synthesize_topology_def synth_socket_def enum_cpus_def st0_def st1_def st2_def Let_def)
  have k0: "0 \<in> set (map fst (topology st0))" and s0: "0 \<in> set (sockets st0)"
    and f0: "map fst (topology st0) = [0]" and i0: "icpus st0 = icpus st"
    and n0: "num_cpus st0 = ?n" and cpu0: "cpu st0 = cpu st"
    and t0: "topo_lookup (topology st0) = Map.empty"
    by (simp_all add: st0_def add_socket_def topo_lookup_def fun_eq_iff)
  note c1 = synth_cores [OF k0, of ?n, folded st1_def]
  have sk: "0 \<in> set (sockets (st1\<lparr>cpu := 0\<rparr>))" "0 \<in> set (map fst (topology (st1\<lparr>cpu := 0\<rparr>)))"
    using c1 k0 s0 by simp_all
  note c2 = enum_cores [OF sk, of ?n, folded st2_def]
  have "icpus st2 = icpus st @ map (\<lambda>c. cpu_record (cpu st) 0 (int c) 0 no_attrs) [0..<?n]
        @ map (\<lambda>c. cpu_record (int c) 0 (int c) 0 no_attrs) [0..<?n]"
    using c1 c2 i0 cpu0 by simp
  moreover have "length (topology st2) = 1"
  proof -
    have "map fst (topology st2) = [0]"
      using c1 c2 f0 by simp
    from arg_cong [OF this, of length] show ?thesis by simp
  qed
  moreover have "num_cpus st2 = ?n"
    using c1 c2 n0 by simp
  moreover have "topo_lookup (topology st2) =
       (\<lambda>(s, c, t). if s = 0 \<and> 0 \<le> c \<and> c < int ?n \<and> t = 0 then Some c else None)"
    using c1 c2 t0 by (auto simp: fun_eq_iff)
  ultimately show ?thesis
    by (simp add: eq)
qed

lemma re_prefix_lit:
  "re_prefix (re_lit k) s = (if take (length k) s = k then Some (drop (length k) s) else None)"
proof (induction k arbitrary: s)
  case Nil
  then show ?case by simp
next
  case (Cons a k)
  then show ?case by (cases s) auto
qed

lemma re_key_colon_group_prefix:
  "re_key_colon_group key cls line \<noteq> None \<Longrightarrow> re_prefix key line \<noteq> None"
  by (cases "re_prefix key line") (auto simp: re_key_colon_group_def)

lemma re_core_exclusive:
  assumes "re_core l \<noteq> None"
  shows "re_processor l = None \<and> re_cpu_family l = None \<and> re_cpu_model l = None \<and> re_socket l = None"
proof -
  from assms have "re_prefix (re_lit ''core id'') l \<noteq> None"
    unfolding re_core_def by (rule re_key_colon_group_prefix)
  then have "take (length ''core id'') l = ''core id''"
    unfolding re_prefix_lit by (metis option.distinct(1))
  then obtain r where l: "l = ''core id'' @ r"
    by (metis append_take_drop_id)
  show ?thesis
    by (simp add: l re_processor_def re_cpu_family_def re_cpu_model_def re_socket_def
        re_key_colon_group_def)
qed

lemma scan_line_core:
  "re_core l = Some g \<Longrightarrow> scan_line st l = core_step (int (digits_val g)) st"
  using re_core_exclusive [of l] by (simp add: scan_line_def)

lemma icpus_core_step: "icpus (core_step c st) \<noteq> []"
  by (simp add: core_step_def Let_def split: prod.splits)

lemma icpus_scan_line_mono: "icpus st \<noteq> [] \<Longrightarrow> icpus (scan_line st l) \<noteq> []"
  by (auto simp: scan_line_def add_socket_def core_step_def Let_def split: option.splits prod.splits)

lemma icpus_scan_lines_mono: "icpus st \<noteq> [] \<Longrightarrow> icpus (scan_lines st ls) \<noteq> []"
  unfolding scan_lines_def by (induction ls arbitrary: st) (simp_all add: icpus_scan_line_mono)

lemma icpus_scan_lines_core:
  "\<exists>l \<in> set lines. re_core l \<noteq> None \<Longrightarrow> icpus (scan_lines st lines) \<noteq> []"
proof (induction lines arbitrary: st)
  case Nil
  then show ?case by simp
next
  case (Cons l ls)
  show ?case
  proof (cases "re_core l")
    case None
    with Cons show ?thesis by (simp add: scan_lines_def)
  next
    case (Some g)
    then have "icpus (scan_line st l) \<noteq> []"
      by (simp add: scan_line_core icpus_core_step)
    then show ?thesis
      using icpus_scan_lines_mono by (simp add: scan_lines_def)
  qed
qed

lemma inv_topology_nonempty: "cpuinfo_inv st \<Longrightarrow> icpus st \<noteq> [] \<Longrightarrow> topology st \<noteq> []"
  by (auto simp: cpuinfo_inv_def)

lemma inv_topology_empty: "cpuinfo_inv st \<Longrightarrow> icpus st = [] \<Longrightarrow> topology st = []"
  by (auto simp: cpuinfo_inv_def)

lemma inv_num_nodes: "cpuinfo_inv st \<Longrightarrow> length (topology st) = card (icpu_numa_node ` set (icpus st))"
  unfolding cpuinfo_inv_def
  by (metis distinct_card length_map set_map)

text \<open>
  Claim C6: when cpuinfo has a \<^verbatim>\<open>core id\<close> line, the method returns
  CPU records with distinct (socket, core, thread) triples, leaves in
  \<^verbatim>\<open>self.topology\<close> exactly their map to CPU ids, numbers hyperthreads per
  core from 0, sets \<^verbatim>\<open>num_nodes\<close> to the number of distinct sockets and
  \<^verbatim>\<open>num_cpus\<close> to the number of processor lines.
\<close>

theorem inodes_get_inumas_icpus_topology:
  assumes "inodes_get_inumas_icpus (Some lines) op = Inr (op', ns, cs)"
    and "\<exists>l \<in> set lines. re_core l \<noteq> None"
  shows "distinct (map icpu_key cs)
    \<and> topo_lookup (topology op') = map_of (map (\<lambda>r. (icpu_key r, icpu_cpu r)) cs)
    \<and> map icpu_thread cs = map int (sibling_index (map icpu_pair cs))
    \<and> num_nodes op' = card (icpu_numa_node ` set cs)
    \<and> num_cpus op' = length (filter (\<lambda>l. re_processor l \<noteq> None) lines)"
proof -
  let ?st = "scan_lines (init_scan op) lines"
  have inv: "cpuinfo_inv ?st"
    by (rule scan_lines_inv [OF init_scan_inv])
  have ne: "topology ?st \<noteq> []"
    using inv_topology_nonempty [OF inv] icpus_scan_lines_core [OF assms(2)] by blast
  then have fin: "finish_scan ?st = ?st\<lparr>num_nodes := length (topology ?st)\<rparr>"
    by (simp add: finish_scan_def)
  have res: "op' = node_operator.truncate (?st\<lparr>num_nodes := length (topology ?st)\<rparr>)"
    "cs = icpus ?st"
    using assms(1) fin by (auto simp: inodes_get_inumas_icpus_def)
  have "num_cpus (init_scan op) = 0"
    by (simp add: init_scan_def node_operator.defs cpuinfo_scan.defs)
  then show ?thesis
    using inv res inv_num_nodes [OF inv] num_cpus_scan_lines [of "init_scan op" lines]
    by (simp add: cpuinfo_inv_def distinct_icpu_keys node_operator.defs)
qed

lemma inodes_get_inumas_icpus_fallback_result:
  assumes "\<forall>l \<in> set lines. re_core l = None"
  shows "\<exists>op' ns v. inodes_get_inumas_icpus (Some lines) op =
      Inr (op', ns,
           map (\<lambda>c. cpu_record v 0 (int c) 0 no_attrs) [0..<length (filter (\<lambda>l. re_processor l \<noteq> None) lines)]
         @ map (\<lambda>c. cpu_record (int c) 0 (int c) 0 no_attrs) [0..<length (filter (\<lambda>l. re_processor l \<noteq> None) lines)])
    \<and> num_nodes op' = 1
    \<and> num_cpus op' = length (filter (\<lambda>l. re_processor l \<noteq> None) lines)
    \<and> topo_lookup (topology op') =
        (\<lambda>(s, c, t). if s = 0 \<and> 0 \<le> c \<and> c < int (length (filter (\<lambda>l. re_processor l \<noteq> None) lines)) \<and> t = 0
                     then Some c else None)"
proof -
  let ?st = "scan_lines (init_scan op) lines"
  have inv: "cpuinfo_inv ?st"
    by (rule scan_lines_inv [OF init_scan_inv])
  have i0: "icpus ?st = []"
    using scan_lines_no_core_icpus [OF assms, of "init_scan op"]
    by (simp add: init_scan_def node_operator.defs cpuinfo_scan.defs)
  then have "topology ?st = []"
    by (rule inv_topology_empty [OF inv])
  then have fin: "finish_scan ?st = synthesize_topology (?st\<lparr>num_nodes := 0\<rparr>)"
    by (simp add: finish_scan_def)
  have n: "num_cpus ?st = length (filter (\<lambda>l. re_processor l \<noteq> None) lines)"
    using num_cpus_scan_lines [of "init_scan op" lines]
    by (simp add: init_scan_def node_operator.defs cpuinfo_scan.defs)
  note syn = synthesize_topology_result [of "?st\<lparr>num_nodes := 0\<rparr>"]
  let ?fs = "finish_scan ?st"
  have r: "inodes_get_inumas_icpus (Some lines) op = Inr (node_operator.truncate ?fs, inumas ?fs, icpus ?fs)"
    by (simp add: inodes_get_inumas_icpus_def Let_def)
  show ?thesis
    unfolding r
    by (intro exI [of _ "node_operator.truncate ?fs"] exI [of _ "inumas ?fs"] exI [of _ "cpu ?st"])
      (use syn i0 n fin in \<open>simp add: node_operator.defs\<close>)
qed

text \<open>
  Claim C7: without any \<^verbatim>\<open>core id\<close> line the synthetic topology is one
  socket whose core \<open>c\<close> holds CPU \<open>c\<close> on thread 0, and one node is
  reported; but the CPU list has \<open>2 n\<close> records for \<open>n\<close> processor lines:
  the first loop's \<open>n\<close> records, all carrying one stale CPU id, are kept
  before the \<open>n\<close> records of the enumeration.
\<close>

theorem inodes_get_inumas_icpus_fallback:
  assumes "\<forall>l \<in> set lines. re_core l = None"
  shows "\<exists>op' ns v. inodes_get_inumas_icpus (Some lines) op =
      Inr (op', ns,
           map (\<lambda>c. cpu_record v 0 (int c) 0 no_attrs) [0..<length (filter (\<lambda>l. re_processor l \<noteq> None) lines)]
         @ map (\<lambda>c. cpu_record (int c) 0 (int c) 0 no_attrs) [0..<length (filter (\<lambda>l. re_processor l \<noteq> None) lines)])
    \<and> num_nodes op' = 1
    \<and> num_cpus op' = length (filter (\<lambda>l. re_processor l \<noteq> None) lines)
    \<and> topo_lookup (topology op') =
        (\<lambda>(s, c, t). if s = 0 \<and> 0 \<le> c \<and> c < int (length (filter (\<lambda>l. re_processor l \<noteq> None) lines)) \<and> t = 0
                     then Some c else None)"
  using assms by (rule inodes_get_inumas_icpus_fallback_result)

lemma inodes_get_inumas_icpus_num_nodes:
  "\<exists>op' ns cs. inodes_get_inumas_icpus (Some lines) op = Inr (op', ns, cs) \<and> 1 \<le> num_nodes op'"
proof (cases "\<exists>l \<in> set lines. re_core l \<noteq> None")
  case True
  let ?st = "scan_lines (init_scan op) lines"
  have inv: "cpuinfo_inv ?st"
    by (rule scan_lines_inv [OF init_scan_inv])
  have "topology ?st \<noteq> []"
    using inv_topology_nonempty [OF inv] icpus_scan_lines_core [OF True] by blast
  then show ?thesis
    by (simp add: inodes_get_inumas_icpus_def finish_scan_def node_operator.defs Suc_le_eq)
next
  case False
  then show ?thesis
    using inodes_get_inumas_icpus_fallback_result [of lines op] by auto
qed

text \<open>
  Claim C21: reading cpuinfo always succeeds once the file is open and
  reports at least one NUMA node.
\<close>

theorem inodes_get_inumas_icpus_nodes:
  "\<exists>op' ns cs. inodes_get_inumas_icpus (Some lines) op = Inr (op', ns, cs) \<and> 1 \<le> num_nodes op'"
  by (rule inodes_get_inumas_icpus_num_nodes)

section \<open>The CPU class\<close>

text \<open>
  Claim C22: \<^verbatim>\<open>CPU.__ne__\<close> is the negation of \<^verbatim>\<open>CPU.__eq__\<close>, the
  equality is an equivalence relation, and it ignores the family, model and
  revision of a CPU.
\<close>

theorem CPU_eq_equivalence:
  "CPU_ne a b = (\<not> CPU_eq a b) \<and> equivp CPU_eq \<and>
   CPU_eq a (a\<lparr>CPU_cpu_family := f, CPU_cpu_model := m, CPU_revision := r\<rparr>)"
  by (auto simp: CPU_ne_def CPU_eq_def equivp_def fun_eq_iff)

section \<open>Example inputs\<close>

text \<open>
  A \<^verbatim>\<open>/proc/cpuinfo\<close> block as an x86 kernel prints it, and the host of
  the specification: two sockets of two cores with two hyperthreads each,
  numbered the way Linux numbers them (all first threads, then all second
  threads).
\<close>

definition cpuinfo_block :: "nat \<Rightarrow> nat \<Rightarrow> nat \<Rightarrow> string list" where
  "cpuinfo_block p s c =
     [''processor'' @ [CHR 0x09] @ '': '' @ string_of_nat p,
      ''cpu family'' @ [CHR 0x09] @ '': 6'',
      ''model name'' @ [CHR 0x09] @ '': Intel(R) Xeon(R)'',
      ''physical id'' @ [CHR 0x09] @ '': '' @ string_of_nat s,
      ''core id'' @ [CHR 0x09, CHR 0x09] @ '': '' @ string_of_nat c,
      '''']"

definition cpuinfo_2s2c2t :: "string list" where
  "cpuinfo_2s2c2t =
     cpuinfo_block 0 0 0 @ cpuinfo_block 1 0 1 @ cpuinfo_block 2 1 0 @ cpuinfo_block 3 1 1 @
     cpuinfo_block 4 0 0 @ cpuinfo_block 5 0 1 @ cpuinfo_block 6 1 0 @ cpuinfo_block 7 1 1"

definition cpuinfo_no_topology :: "string list" where
  "cpuinfo_no_topology = [''processor : 7'', ''processor : 1'', ''processor : 2'']"

lemma inodes_get_inumas_icpus_Some: "\<exists>r. inodes_get_inumas_icpus (Some lines) op = Inr r"
  by (simp add: inodes_get_inumas_icpus_def Let_def)

theorem scan_line_inv_witness:
  "cpuinfo_inv (init_scan init_node_operator) \<and>
   cpuinfo_inv (scan_line (init_scan init_node_operator) ''core id : 0'')"
  using scan_line_inv [OF init_scan_inv] init_scan_inv by blast

theorem inodes_get_inumas_icpus_topology_witness:
  "list_ex (\<lambda>l. re_core l \<noteq> None) cpuinfo_2s2c2t \<and>
   (case inodes_get_inumas_icpus (Some cpuinfo_2s2c2t) init_node_operator of
      Inl _ \<Rightarrow> False
    | Inr (op', ns, cs) \<Rightarrow>
        distinct (map icpu_key cs)
        \<and> topo_lookup (topology op') = map_of (map (\<lambda>r. (icpu_key r, icpu_cpu r)) cs)
        \<and> map icpu_thread cs = map int (sibling_index (map icpu_pair cs))
        \<and> num_nodes op' = card (icpu_numa_node ` set cs)
        \<and> num_cpus op' = length (filter (\<lambda>l. re_processor l \<noteq> None) cpuinfo_2s2c2t))"
proof -
  obtain op' ns cs where r: "inodes_get_inumas_icpus (Some cpuinfo_2s2c2t) init_node_operator = Inr (op', ns, cs)"
    using inodes_get_inumas_icpus_Some by (metis prod_cases3)
  have ex: "list_ex (\<lambda>l. re_core l \<noteq> None) cpuinfo_2s2c2t"
    by code_simp
  then have "\<exists>l \<in> set cpuinfo_2s2c2t. re_core l \<noteq> None"
    by (simp add: list_ex_iff)
  with inodes_get_inumas_icpus_topology [OF r] ex show ?thesis
    by (simp add: r)
qed

theorem inodes_get_inumas_icpus_fallback_witness:
  "list_all (\<lambda>l. re_core l = None) cpuinfo_no_topology \<and>
   (\<exists>op' ns v. inodes_get_inumas_icpus (Some cpuinfo_no_topology) init_node_operator =
      Inr (op', ns, map (\<lambda>c. cpu_record v 0 (int c) 0 no_attrs) [0..<3]
                  @ map (\<lambda>c. cpu_record (int c) 0 (int c) 0 no_attrs) [0..<3])
    \<and> num_nodes op' = 1 \<and> num_cpus op' = 3
    \<and> topo_lookup (topology op') =
        (\<lambda>(s, c, t). if s = 0 \<and> 0 \<le> c \<and> c < 3 \<and> t = 0 then Some c else None))"
proof -
  have all: "list_all (\<lambda>l. re_core l = None) cpuinfo_no_topology"
    by code_simp
  have n: "length (filter (\<lambda>l. re_processor l \<noteq> None) cpuinfo_no_topology) = 3"
    by code_simp
  from all have "\<forall>l \<in> set cpuinfo_no_topology. re_core l = None"
    by (simp add: list_all_iff)
  from inodes_get_inumas_icpus_fallback [OF this, of init_node_operator] all n
  show ?thesis by simp
qed

end
