(* ===== verification/NonHugepages.thy ===== *)
theory NonHugepages
  imports Hugepages CpuTopology
begin

text \<open>
  The memory scan of a host without a reservation file,
  \<^verbatim>\<open>NodeOperator._inode_get_memory_nonhugepages\<close>
  (\<^verbatim>\<open>inventory/agent/node.py\<close>, lines 529--586). For each NUMA node the
  meminfo file is read with four of the six patterns
  (\<open>meminfo_scan_basic\<close>, theory \<open>MemInfo\<close>), the totals are converted to
  MiB by floor division, the node's total is appended to the instance list
  \<^verbatim>\<open>total_memory_nodes_mb\<close>, and one entry with
  \<^verbatim>\<open>hugepages_configured = 'False'\<close> is reported. The instance state is
  the \<open>node_operator\<close> record of theory \<open>CpuTopology\<close>, passed in and
  returned.
\<close>

section \<open>The scan\<close>

text \<open>
  Lines 544--575 for one node: a meminfo file that cannot be opened leaves
  both sums 0 (the \<^verbatim>\<open>IOError\<close> is caught); then \<^verbatim>\<open>/= 1024\<close>.
\<close>

definition nonhp_node_totals :: "host \<Rightarrow> nat \<Rightarrow> int \<times> int" where
  "nonhp_node_totals h node =
     (let (total_mb, free_mb) =
        (case node_meminfo_lines (node_dir h node) of
           None \<Rightarrow> (0, 0)
         | Some lines \<Rightarrow> meminfo_scan_basic lines)
      in (total_mb div 1024, free_mb div 1024))"

text \<open>Lines 577--582: the entry reported for one node.\<close>

definition nonhp_attr :: "nat \<Rightarrow> int \<Rightarrow> int \<Rightarrow> mem_attr" where
  "nonhp_attr node total_mb free_mb =
     empty_attr\<lparr>numa_node := Some node, memtotal_mib := Some total_mb,
                memavail_mib := Some free_mb, hugepages_configured := Some ''False''\<rparr>"

text \<open>One iteration of the loop of lines 543--584, with the append to the instance list.\<close>

definition nonhp_step :: "host \<Rightarrow> mem_attr list \<times> node_operator \<Rightarrow> nat \<Rightarrow> mem_attr list \<times> node_operator" where
  "nonhp_step h acc node =
     (let (imemory, op) = acc;
          (total_mb, free_mb) = nonhp_node_totals h node
      in (imemory @ [nonhp_attr node total_mb free_mb],
          op\<lparr>total_memory_nodes_mb := total_memory_nodes_mb op @ [total_mb]\<rparr>))"

text \<open>Lines 529--586: \<^verbatim>\<open>self.total_memory_mb\<close> is reset, the list is not.\<close>

definition inode_get_memory_nonhugepages :: "host \<Rightarrow> node_operator \<Rightarrow> mem_attr list \<times> node_operator" where
  "inode_get_memory_nonhugepages h op =
     foldl (nonhp_step h) ([], op\<lparr>total_memory_mb := 0\<rparr>) [0..<num_nodes op]"

section \<open>Reference view\<close>

text \<open>
  What one call reports and records, node by node: the entries and the
  node totals as maps over the node range.
\<close>

definition nonhp_report :: "host \<Rightarrow> nat \<Rightarrow> mem_attr list" where
  "nonhp_report h n =
     map (\<lambda>node. nonhp_attr node (fst (nonhp_node_totals h node)) (snd (nonhp_node_totals h node))) [0..<n]"

definition nonhp_node_list :: "host \<Rightarrow> nat \<Rightarrow> int list" where
  "nonhp_node_list h n = map (\<lambda>node. fst (nonhp_node_totals h node)) [0..<n]"

text \<open>
  The kilobyte sums of a node as the hugepage scan's meminfo loop computes
  them (theory \<open>MemInfo\<close>), all 0 without a readable file.
\<close>

definition node_meminfo_kb :: "host \<Rightarrow> nat \<Rightarrow> meminfo_acc" where
  "node_meminfo_kb h node =
     (case node_meminfo_lines (node_dir h node) of None \<Rightarrow> meminfo_zero | Some lines \<Rightarrow> meminfo_scan lines)"

text \<open>A host whose two nodes have readable meminfo files.\<close>

definition host_plain_example :: host where
  "host_plain_example =
     \<lparr>cpuinfo = None,
      numa_dirs =
        [(0, \<lparr>hugepage_subdirs = None,
              node_meminfo_lines = Some [''Node 0 MemTotal:  8192 kB'', ''Node 0 MemFree:  2048 kB'',
                                         ''Node 0 FilePages:  1024 kB'', ''Node 0 SReclaimable:  1024 kB'']\<rparr>),
         (1, \<lparr>hugepage_subdirs = None,
              node_meminfo_lines = Some [''Node 1 MemTotal:  4096 kB'', ''Node 1 MemFree:  3072 kB'']\<rparr>)],
      overcommit_memory = CmdFailed, pss_output = CmdFailed, compute_reserved_conf = NoFile,
      initial_compute_config_complete = True, volatile_compute_config_complete = True,
      nodetype = ''compute''\<rparr>"

section \<open>Properties\<close>

lemma nonhp_step_foldl:
  "foldl (nonhp_step h) (ms, op) nodes =
     (ms @ map (\<lambda>node. nonhp_attr node (fst (nonhp_node_totals h node)) (snd (nonhp_node_totals h node))) nodes,
      op\<lparr>total_memory_nodes_mb := total_memory_nodes_mb op @ map (\<lambda>node. fst (nonhp_node_totals h node)) nodes\<rparr>)"
  by (induction nodes arbitrary: ms op) (simp_all add: nonhp_step_def split: prod.splits)

lemma inode_get_memory_nonhugepages_closed:
  "inode_get_memory_nonhugepages h op =
     (nonhp_report h (num_nodes op),
      op\<lparr>total_memory_mb := 0,
         total_memory_nodes_mb := total_memory_nodes_mb op @ nonhp_node_list h (num_nodes op)\<rparr>)"
  by (simp add: inode_get_memory_nonhugepages_def nonhp_step_foldl nonhp_report_def nonhp_node_list_def)

lemma nonhp_num_nodes [simp]:
  "num_nodes (snd (inode_get_memory_nonhugepages h op)) = num_nodes op"
  by (simp add: inode_get_memory_nonhugepages_closed)

lemma nonhp_node_totals_kb:
  "nonhp_node_totals h node =
     (total_kb (node_meminfo_kb h node) div 1024, free_kb (node_meminfo_kb h node) div 1024)"
  by (simp add: nonhp_node_totals_def node_meminfo_kb_def meminfo_scan_basic_eq meminfo_zero_def
           split: option.splits prod.splits)

text \<open>
  Claim C11. The non-hugepage scan refines the meminfo loop of the hugepage
  scan: it reports nodes 0, 1, ... in order, each with that loop's total and
  free kilobytes converted to MiB by floor division and
  \<^verbatim>\<open>hugepages_configured = 'False'\<close>; it resets
  \<^verbatim>\<open>total_memory_mb\<close> and appends the node totals in MiB to
  \<^verbatim>\<open>total_memory_nodes_mb\<close>.
\<close>

theorem inode_get_memory_nonhugepages_spec:
  "inode_get_memory_nonhugepages h op =
     (map (\<lambda>node. empty_attr\<lparr>numa_node := Some node,
                              memtotal_mib := Some (total_kb (node_meminfo_kb h node) div 1024),
                              memavail_mib := Some (free_kb (node_meminfo_kb h node) div 1024),
                              hugepages_configured := Some ''False''\<rparr>) [0..<num_nodes op],
      op\<lparr>total_memory_mb := 0,
         total_memory_nodes_mb := total_memory_nodes_mb op @
           map (\<lambda>node. total_kb (node_meminfo_kb h node) div 1024) [0..<num_nodes op]\<rparr>)"
  by (simp add: inode_get_memory_nonhugepages_closed nonhp_report_def nonhp_node_list_def nonhp_attr_def
                nonhp_node_totals_kb)

text \<open>
  Claim C12. The node totals agree with the meminfo loop of the hugepage
  scan: total and free memory of a node are that loop's kilobyte sums
  divided by 1024 (0 for a node without a readable meminfo file).
\<close>

theorem nonhp_node_totals_meminfo:
  "nonhp_node_totals h node =
     (case node_meminfo_lines (node_dir h node) of
        None \<Rightarrow> (0, 0)
      | Some lines \<Rightarrow> (total_kb (meminfo_scan lines) div 1024, free_kb (meminfo_scan lines) div 1024))"
  using nonhp_node_totals_kb [of h node]
  by (simp add: node_meminfo_kb_def meminfo_zero_def split: option.splits)

lemma nonhp_iterate:
  "num_nodes (((\<lambda>op. snd (inode_get_memory_nonhugepages h op)) ^^ k) op) = num_nodes op \<and>
   total_memory_nodes_mb (((\<lambda>op. snd (inode_get_memory_nonhugepages h op)) ^^ k) op) =
     total_memory_nodes_mb op @ concat (replicate k (nonhp_node_list h (num_nodes op)))"
  by (induction k) (simp_all add: inode_get_memory_nonhugepages_closed concat_replicate_snoc)

text \<open>
  Claim C18. The instance list \<^verbatim>\<open>total_memory_nodes_mb\<close> is never
  reset: after \<open>k\<close> scans it holds the node totals \<open>k\<close> times over
  (\<^verbatim>\<open>total_memory_mb\<close>, by contrast, is reset on every scan).
\<close>

theorem inode_get_memory_nonhugepages_accumulates:
  "total_memory_nodes_mb (((\<lambda>op. snd (inode_get_memory_nonhugepages h op)) ^^ k) op) =
     total_memory_nodes_mb op @ concat (replicate k (nonhp_node_list h (num_nodes op)))"
  using nonhp_iterate by blast

end
