(* ===== verification/Facade.thy ===== *)
theory Facade
  imports NonHugepages
begin

text \<open>
  The memory entry point \<^verbatim>\<open>NodeOperator.inodes_get_imemory\<close>
  (\<^verbatim>\<open>inventory/agent/node.py\<close>, lines 588--608), which chooses the
  hugepage scan when \<^verbatim>\<open>/etc/nova/compute_reserved.conf\<close> is a file and
  the non-hugepage scan otherwise, and the snapshot the agent takes with the
  two entry points of the class: the CPU scan on a fresh instance, then the
  memory scan on the instance it leaves. The agent that calls them is not
  part of the sources; \<open>agent_snapshot\<close> follows the order the design
  document gives for the facade.
\<close>

section \<open>The entry points\<close>

text \<open>
  Lines 598--604: \<^verbatim>\<open>os.path.isfile\<close> holds for a file that exists,
  readable or not; the hugepage scan reads the instance's node count and
  leaves the instance unchanged.
\<close>

definition inodes_get_imemory :: "host \<Rightarrow> node_operator \<Rightarrow> (mem_attr list \<times> node_operator) py_result" where
  "inodes_get_imemory h op =
     (case compute_reserved_conf h of
        NoFile \<Rightarrow> Inr (inode_get_memory_nonhugepages h op)
      | _ \<Rightarrow> py_bind (inode_get_memory_hugepages h (num_nodes op)) (\<lambda>ms. Inr (ms, op)))"

text \<open>
  The snapshot: \<^verbatim>\<open>inodes_get_inumas_icpus\<close> on a new
  \<^verbatim>\<open>NodeOperator\<close>, then \<^verbatim>\<open>inodes_get_imemory\<close>; an exception of either
  ends it.
\<close>

definition agent_snapshot :: "host \<Rightarrow> (inuma list \<times> icpu list \<times> mem_attr list \<times> node_operator) py_result" where
  "agent_snapshot h =
     py_bind (inodes_get_inumas_icpus (cpuinfo h) init_node_operator) (\<lambda>(op, inumas, icpus).
     py_bind (inodes_get_imemory h op) (\<lambda>(imemory, op').
       Inr (inumas, icpus, imemory, op')))"

text \<open>Whether the report of a host is suppressed (lines 314--316).\<close>

definition report_suppressed :: "host \<Rightarrow> bool" where
  "report_suppressed h \<longleftrightarrow> initial_compute_config_complete h \<and> \<not> volatile_compute_config_complete h"

section \<open>Properties\<close>

lemma inodes_get_imemory_nodes:
  assumes "inodes_get_imemory h op = Inr (ms, op')"
  shows "num_nodes op' = num_nodes op \<and>
         map numa_node ms =
           (if compute_reserved_conf h \<noteq> NoFile \<and> report_suppressed h then []
            else map Some [0..<num_nodes op])"
proof (cases "compute_reserved_conf h")
  case NoFile
  then show ?thesis
    using assms
    by (auto simp: inodes_get_imemory_def inode_get_memory_nonhugepages_closed nonhp_report_def nonhp_attr_def)
next
  case Unreadable
  then show ?thesis
    using assms hugepage_report_nodes [of h "num_nodes op" ms]
    by (auto simp: inodes_get_imemory_def report_suppressed_def)
next
  case (ConfLines ls)
  then show ?thesis
    using assms hugepage_report_nodes [of h "num_nodes op" ms]
    by (auto simp: inodes_get_imemory_def report_suppressed_def)
qed

text \<open>
  Claim C17. The memory scan follows the reservation file: every entry it
  reports says hugepages are configured exactly when
  \<^verbatim>\<open>compute_reserved.conf\<close> exists.
\<close>

theorem inodes_get_imemory_mode:
  "inodes_get_imemory h op = Inr (ms, op') \<Longrightarrow>
   list_all (\<lambda>a. hugepages_configured a = Some (if compute_reserved_conf h = NoFile then ''False'' else ''True'')) ms"
  by (cases "compute_reserved_conf h")
     (auto simp: inodes_get_imemory_def inode_get_memory_nonhugepages_closed nonhp_report_def nonhp_attr_def
                 list_all_iff elim!: inode_get_memory_hugepages_each hugepage_node_fields)

text \<open>
  Claim C5. A snapshot of a host with a readable cpuinfo reports memory
  for nodes 0, ..., n-1 in order, where n is the node count the CPU scan
  found and is at least 1, unless the hugepage report is suppressed.
\<close>

theorem agent_snapshot_nodes:
  assumes "agent_snapshot h = Inr (ns, cs, ms, op)"
    and "\<not> (compute_reserved_conf h \<noteq> NoFile \<and> report_suppressed h)"
  shows "map numa_node ms = map Some [0..<num_nodes op] \<and> 1 \<le> num_nodes op"
proof -
  obtain op1 where cpu: "inodes_get_inumas_icpus (cpuinfo h) init_node_operator = Inr (op1, ns, cs)"
    and mem: "inodes_get_imemory h op1 = Inr (ms, op)"
    using assms(1) by (auto simp: agent_snapshot_def split: prod.splits)
  obtain lines where "cpuinfo h = Some lines"
    using cpu by (cases "cpuinfo h") (auto simp: inodes_get_inumas_icpus_def)
  then have "1 \<le> num_nodes op1"
    using cpu inodes_get_inumas_icpus_num_nodes [of lines init_node_operator] by auto
  then show ?thesis
    using inodes_get_imemory_nodes [OF mem] assms(2) by simp
qed

theorem inodes_get_imemory_mode_witness:
  "\<exists>ms op'. inodes_get_imemory host_plain_example (init_node_operator\<lparr>num_nodes := 2\<rparr>) = Inr (ms, op') \<and>
     length ms = 2 \<and> list_all (\<lambda>a. hugepages_configured a = Some ''False'') ms"
proof -
  have "map_sum id (\<lambda>r. length (fst r)) (inodes_get_imemory host_plain_example (init_node_operator\<lparr>num_nodes := 2\<rparr>)) = Inr 2"
    by code_simp
  then obtain ms op' where r: "inodes_get_imemory host_plain_example (init_node_operator\<lparr>num_nodes := 2\<rparr>) = Inr (ms, op')"
    and "length ms = 2"
    by (auto dest!: map_sum_Inr_ex)
  moreover have "compute_reserved_conf host_plain_example = NoFile"
    by (simp add: host_plain_example_def)
  ultimately show ?thesis
    using inodes_get_imemory_mode [OF r] by auto
qed

theorem agent_snapshot_nodes_witness:
  "\<exists>ns cs ms op. agent_snapshot (host_plain_example\<lparr>cpuinfo := Some cpuinfo_2s2c2t\<rparr>) = Inr (ns, cs, ms, op) \<and>
     map numa_node ms = map Some [0..<num_nodes op] \<and> 1 \<le> num_nodes op"
proof -
  have "map_sum id (\<lambda>r. length (fst r)) (agent_snapshot (host_plain_example\<lparr>cpuinfo := Some cpuinfo_2s2c2t\<rparr>)) = Inr 2"
    by code_simp
  then obtain ns cs ms op where r: "agent_snapshot (host_plain_example\<lparr>cpuinfo := Some cpuinfo_2s2c2t\<rparr>) = Inr (ns, cs, ms, op)"
    by (auto dest!: map_sum_Inr_ex)
  moreover have "\<not> (compute_reserved_conf (host_plain_example\<lparr>cpuinfo := Some cpuinfo_2s2c2t\<rparr>) \<noteq> NoFile \<and>
                    report_suppressed (host_plain_example\<lparr>cpuinfo := Some cpuinfo_2s2c2t\<rparr>))"
    by (simp add: host_plain_example_def)
  ultimately show ?thesis
    using agent_snapshot_nodes [OF r] by blast
qed

end
