(* ===== verification/PciDevice.thy ===== *)
theory PciDevice
  imports Prelude
begin

text \<open>
  The PCI device client of \<^verbatim>\<open>inventoryclient/v1/pci_device.py\<close>: the
  resource paths the manager builds, its \<^verbatim>\<open>get\<close>, which turns the
  \<^verbatim>\<open>IndexError\<close> of an empty answer into \<^verbatim>\<open>None\<close>, and the display
  name of a device. The REST layer (\<^verbatim>\<open>base.Manager._list\<close>,
  \<^verbatim>\<open>_update\<close>) is outside the sources; the manager's operations take
  it as a parameter, a function from a path to the resources the server
  returns for it.
\<close>

section \<open>Devices and the manager\<close>

text \<open>
  The two attributes of a \<^verbatim>\<open>PciDevice\<close> resource the module reads;
  \<open>None\<close> is a JSON \<^verbatim>\<open>null\<close>.
\<close>

record pci_device =
  pci_name :: "string option"
  pci_uuid :: string

text \<open>Lines 22--24, 26--28, 30--31, 37--38: the resource paths.\<close>

definition pci_host_devices_path :: "string \<Rightarrow> string" where
  "pci_host_devices_path host_id = ''/v1/hosts/'' @ host_id @ ''/pci_devices''"

definition pci_all_devices_path :: string where
  "pci_all_devices_path = ''/v1/pci_devices''"

definition pci_device_path :: "string \<Rightarrow> string" where
  "pci_device_path pci_id = ''/v1/pci_devices/'' @ pci_id"

text \<open>
  \<^verbatim>\<open>list\<close>, \<^verbatim>\<open>list_all\<close> and \<^verbatim>\<open>get\<close> (lines 22--35) over the REST
  call \<open>list_fn\<close>; \<^verbatim>\<open>self._list(path)[0]\<close> raises \<^verbatim>\<open>IndexError\<close> on an
  empty answer (the only exception indexing raises), which \<^verbatim>\<open>get\<close>
  catches.
\<close>

definition pci_list :: "(string \<Rightarrow> 'r list) \<Rightarrow> string \<Rightarrow> 'r list" where
  "pci_list list_fn host_id = list_fn (pci_host_devices_path host_id)"

definition pci_list_all :: "(string \<Rightarrow> 'r list) \<Rightarrow> 'r list" where
  "pci_list_all list_fn = list_fn pci_all_devices_path"

definition pci_get :: "(string \<Rightarrow> 'r list) \<Rightarrow> string \<Rightarrow> 'r option" where
  "pci_get list_fn pci_id =
     (case py_index (list_fn (pci_device_path pci_id)) 0 of
        Inl _ \<Rightarrow> None
      | Inr r \<Rightarrow> Some r)"

text \<open>
  \<^verbatim>\<open>update\<close> (lines 37--40) over the REST call \<open>update_fn\<close>, which
  receives the path and the patch (serialised by \<^verbatim>\<open>json.dumps\<close> inside
  it).
\<close>

definition pci_update :: "(string \<Rightarrow> 'p \<Rightarrow> 'r) \<Rightarrow> string \<Rightarrow> 'p \<Rightarrow> 'r" where
  "pci_update update_fn pci_id patch = update_fn (pci_device_path pci_id) patch"

text \<open>
  Lines 43--47: the name when it is set and not empty (Python truth), else
  the last eight characters of the UUID in parentheses.
\<close>

definition get_pci_device_display_name :: "pci_device \<Rightarrow> string" where
  "get_pci_device_display_name p =
     (case pci_name p of
        Some n \<Rightarrow> if n \<noteq> [] then n else ''('' @ py_suffix 8 (pci_uuid p) @ '')''
      | None \<Rightarrow> ''('' @ py_suffix 8 (pci_uuid p) @ '')'')"

text \<open>A device as the server reports it, without a name.\<close>

definition pci_unnamed_example :: pci_device where
  "pci_unnamed_example = \<lparr>pci_name = Some [], pci_uuid = ''c1d5c1a6-2f3e-4b0a-9c57-6f0b2d61a7e4''\<rparr>"

section \<open>Properties\<close>

lemma py_suffix_length: "length (py_suffix k s) = min k (length s)"
  by (simp add: py_suffix_def)

lemma py_suffix_suffix: "\<exists>pre. s = pre @ py_suffix k s"
  by (metis append_take_drop_id py_suffix_def)

text \<open>
  Claim C24. The display name of a device without a name is the last
  \<open>min 8 n\<close> characters of its UUID of length \<open>n\<close>, in parentheses: it is
  never empty, has \<open>min 8 n + 2\<close> characters, and ends the UUID.
\<close>

theorem get_pci_device_display_name_unnamed:
  assumes "pci_name p = None \<or> pci_name p = Some []"
  shows "\<exists>pre tail. get_pci_device_display_name p = ''('' @ tail @ '')'' \<and> pci_uuid p = pre @ tail \<and>
           length tail = min 8 (length (pci_uuid p))"
  using assms py_suffix_suffix [of "pci_uuid p" 8] py_suffix_length [of 8 "pci_uuid p"]
  by (auto simp: get_pci_device_display_name_def)

theorem get_pci_device_display_name_unnamed_witness:
  "\<exists>pre. get_pci_device_display_name pci_unnamed_example = ''('' @ ''2d61a7e4'' @ '')'' \<and>
     pci_uuid pci_unnamed_example = pre @ ''2d61a7e4''"
proof -
  have "pci_name pci_unnamed_example = None \<or> pci_name pci_unnamed_example = Some []"
    by (simp add: pci_unnamed_example_def)
  from get_pci_device_display_name_unnamed [OF this]
  obtain pre tail where "get_pci_device_display_name pci_unnamed_example = ''('' @ tail @ '')''"
    and "pci_uuid pci_unnamed_example = pre @ tail" and "length tail = min 8 (length (pci_uuid pci_unnamed_example))"
    by blast
  moreover have "py_suffix 8 (pci_uuid pci_unnamed_example) = ''2d61a7e4''"
    by code_simp
  ultimately show ?thesis
    by (auto simp: pci_unnamed_example_def py_suffix_def)
qed

text \<open>
  Claim C25. A display name is never empty: a named device shows its name,
  any other shows at least the two parentheses.
\<close>

theorem get_pci_device_display_name_nonempty:
  "get_pci_device_display_name p \<noteq> []"
  by (simp add: get_pci_device_display_name_def split: option.splits)

end
