(* ===== verification/Spec2Isabelle.thy ===== *)
theory Spec2Isabelle
  imports RangeParser Facade PciDevice
begin

text \<open>
  \<^bold>\<open>A verification development of the inventory agent's host scanner.\<close>

  The program is the \<^verbatim>\<open>NodeOperator\<close> class of
  \<^verbatim>\<open>src/inventory/inventory/inventory/agent/node.py\<close>, which takes a
  snapshot of a host's CPU topology and per-NUMA-node memory, and the PCI
  device module of the REST client,
  \<^verbatim>\<open>src/python-inventoryclient/.../v1/pci_device.py\<close>. The scanner
  reads \<^verbatim>\<open>/proc/cpuinfo\<close>, the sysfs node directories, two marker
  files, \<^verbatim>\<open>/etc/nova/compute_reserved.conf\<close> and the output of two
  shell commands. Its parts are the CPU scan
  (\<^verbatim>\<open>inodes_get_inumas_icpus\<close>), which also sets the node count the
  memory scans read; the memory entry point (\<^verbatim>\<open>inodes_get_imemory\<close>),
  which picks the hugepage scan or the plain scan; and the range parser
  \<^verbatim>\<open>convert_range_string_to_list\<close>.

  \<^bold>\<open>Semantics.\<close> The module is Python 2: the regular expressions
  \<^verbatim>\<open>\M\<close>, \<^verbatim>\<open>\F\<close>, \<^verbatim>\<open>\C\<close> and \<^verbatim>\<open>\'\<close> are errors from Python 3.7
  on, and in Python 2 they stand for the letter itself. So \<^verbatim>\<open>/\<close> on
  integers is floor division (\<open>div\<close> on \<open>int\<close>), \<^verbatim>\<open>OSError\<close> is not
  an \<^verbatim>\<open>IOError\<close>, and \<^verbatim>\<open>int()\<close> strips whitespace and takes a sign.
  Python integers are \<open>int\<close>. The one float of the module (the factor
  \<^verbatim>\<open>0.9\<close> of the initial report) is an exact \<open>rat\<close>; \<^verbatim>\<open>int()\<close> of it
  truncates towards zero (\<open>py_trunc\<close>). An exception is a value of
  \<open>py_error + 'a\<close>, chained by \<open>py_bind\<close>; every \<^verbatim>\<open>raise\<close> and every
  uncaught error of a library call is an \<open>Inl\<close> branch. The host is an
  explicit snapshot record (\<open>host\<close>): file contents are line lists, a
  file or directory that cannot be opened or listed is \<open>None\<close>, and a
  command gives \<open>CmdOutput\<close>, \<open>CmdFailed\<close> (it ran and failed) or
  \<open>CmdOSError\<close> (it could not be started). Every loop of the program is a
  bounded \<^verbatim>\<open>for\<close> over a list or a range, modelled by \<open>foldl\<close>, \<open>fun\<close>
  or \<open>py_map\<close>; no fuel is needed, and every definition is executable.

  \<^bold>\<open>Theories.\<close>
  \<^item> \<open>Prelude\<close>: Python primitives on strings (\<open>py_strip\<close>,
    \<open>py_split\<close>, \<open>py_split_ws\<close>, \<open>py_int\<close>, \<open>string_of_nat\<close>),
    results, dictionaries as association lists, and an anchored regular
    expression matcher (\<open>re_prefix\<close>, \<open>re_key_colon_group\<close>,
    \<open>re_node_key_group\<close>) for the module's patterns, with their lemmas
    (split/join and print/parse round trips, strip framing).
  \<^item> \<open>RangeParser\<close>: \<^verbatim>\<open>convert_range_string_to_list\<close> (lines 123--136);
    the round trip with a printer of ranges, and the rejection of negative
    numbers.
  \<^item> \<open>CpuTopology\<close>: the \<^verbatim>\<open>NodeOperator\<close> state (record
    \<open>node_operator\<close>, lines 90--102), the CPU class (lines 54--80) and the
    cpuinfo scan of lines 138--288 as a step function \<open>scan_line\<close> over a
    record extension \<open>cpuinfo_scan\<close> of the instance state with the
    method's locals, then \<open>finish_scan\<close> with the synthetic topology. The
    invariant \<open>cpuinfo_inv\<close> (thread counters, CPU records and topology
    dictionary agree) is kept by every line; the topology is refined to the
    map \<open>topo_lookup\<close>.
  \<^item> \<open>MemInfo\<close>: the host snapshot and the per-node meminfo loops (lines
    395--446 and 538--572), \<^verbatim>\<open>_is_strict\<close> and the PSS parse.
  \<^item> \<open>Reservation\<close>: the module constants and the
    \<^verbatim>\<open>COMPUTE_BASE_RESERVED\<close> policy with its clipping (lines 466--488),
    with a printer of the configuration line.
  \<^item> \<open>Hugepages\<close>: \<^verbatim>\<open>_inode_get_memory_hugepages\<close> (lines 294--527):
    the loop over size directories with its \<^verbatim>\<open>IOError\<close> exit
    (\<open>hp_subdirs_loop\<close>), the vswitch reservation (\<open>hp_attr_update\<close>),
    the capacity of one node (\<open>hugepage_node\<close>) and the scan. An abstract
    step \<open>hp_step\<close> describes readable directories.
  \<^item> \<open>NonHugepages\<close>: \<^verbatim>\<open>_inode_get_memory_nonhugepages\<close> (lines
    529--586) with the instance state passed in and returned.
  \<^item> \<open>Facade\<close>: \<^verbatim>\<open>inodes_get_imemory\<close> (lines 588--608) and the
    snapshot \<open>agent_snapshot\<close>: CPU scan on a fresh instance, then the
    memory scan.
  \<^item> \<open>PciDevice\<close>: the client module, with the REST calls of the base
    class as parameters.

  \<^bold>\<open>What is proved.\<close> For the CPU scan: the invariant, exact topology
  and thread numbering, the fallback topology and the node count. For the
  memory scans: the vswitch
  reservation is always none, one 1 GiB page or 512 pages of 2 MiB; which
  pool it comes from; hugepage totals; node order and the suppression
  window; the initial report; the reservation file round trip; the
  equivalence of the two meminfo loops; the non-hugepage scan as the
  hugepage scan's meminfo totals in MiB; the accumulation of
  \<^verbatim>\<open>total_memory_nodes_mb\<close>; the mode selection; and that a snapshot
  reports memory for exactly the nodes the CPU scan found. For the client:
  the display name. The examples of the design document appear as the
  witnesses of these theorems (two sockets of two cores with two threads,
  1100 pages of 2 MiB giving 512 vswitch and 588 VM pages, strict
  accounting on a node with \<^verbatim>\<open>CommitLimit\<close> 1000 kB). Several theorems record where the code and the design
  document disagree: the \<^verbatim>\<open>Committed_AS\<close> pattern never matches, a
  missing node directory raises \<^verbatim>\<open>OSError\<close>, the documented reservation
  format raises \<^verbatim>\<open>ValueError\<close>, the fallback topology duplicates CPU
  records, negative numbers cannot be parsed, and the instance list of node
  totals grows with every scan.

  \<^bold>\<open>Not modelled.\<close> Logging and configuration (no effect on results);
  \<^verbatim>\<open>PciDevice.__repr__\<close> (formatting of the resource dictionary); the
  REST base class and the agent that calls the scanner, which are not in
  the sources (the snapshot order is taken from the design document); the
  contents of the shell pipelines themselves, which are inputs of the
  snapshot. A file that fails in the middle of a read is not distinguished
  from one that cannot be opened. A UUID is a string (\<^verbatim>\<open>str(None)\<close>
  of a missing one is not modelled).
\<close>

end
